theory Spec2Isabelle
  imports Complex_Main "HOL-Library.Sublist"
begin

section \<open>Business travel emissions calculator: the embedding of main.py\<close>

text \<open>
  The calculator is one Python script. Two kinds of numbers occur in it.

  The distance of two cities goes through \<open>math.sin\<close>, \<open>math.cos\<close>, \<open>math.asin\<close> and
  \<open>math.sqrt\<close>, whose results the C library fixes only up to its own accuracy; the
  distance functions are therefore embedded over the exact reals.

  The button handler only adds, multiplies, divides and rounds. There the embedding
  follows IEEE 754 binary64 arithmetic, the arithmetic of a Python float: every
  operation returns the float nearest to the exact result, ties to even, with
  infinities and NaN. A float is written by its exact value; the two zeros are one
  value, which is how \<open>==\<close> sees them. A table entry is the decimal literal of the
  source and \<open>double\<close> gives the float it denotes.

  Everything the script can raise in the modelled part is a value of \<open>py_error\<close>.
\<close>

subsection \<open>Python primitives\<close>

datatype py_error = KeyError | ZeroDivisionError | TypeError | ValueError | OverflowError

definition round_half_even :: "real \<Rightarrow> int" where
  "round_half_even y =
     (let f = \<lfloor>y\<rfloor>; r = y - of_int f
      in if r < 1 / 2 then f
         else if 1 / 2 < r then f + 1
         else if even f then f else f + 1)"

text \<open>Rounding an exact value half to even at \<open>ndigits\<close> decimals.\<close>

definition py_round :: "real \<Rightarrow> nat \<Rightarrow> real" where
  "py_round x ndigits = of_int (round_half_even (x * 10 ^ ndigits)) / 10 ^ ndigits"

definition py_sqrt :: "real \<Rightarrow> py_error + real" where
  "py_sqrt x = (if x < 0 then Inl ValueError else Inr (sqrt x))"

definition py_asin :: "real \<Rightarrow> py_error + real" where
  "py_asin x = (if x < - 1 \<or> 1 < x then Inl ValueError else Inr (arcsin x))"

definition radians :: "real \<Rightarrow> real" where
  "radians deg = deg * pi / 180"

definition dict_get :: "(string \<times> 'v) list \<Rightarrow> string \<Rightarrow> py_error + 'v" where
  "dict_get d k = (case map_of d k of None \<Rightarrow> Inl KeyError | Some v \<Rightarrow> Inr v)"

subsection \<open>Great-circle distance\<close>

text \<open>Lines 30 to 32: the value \<open>a\<close> of the haversine formula, on radians.\<close>

definition haversine_a :: "real \<Rightarrow> real \<Rightarrow> real \<Rightarrow> real \<Rightarrow> real" where
  "haversine_a lat1 lon1 lat2 lon2 =
     (let dlon = lon2 - lon1; dlat = lat2 - lat1
      in (sin (dlat / 2))\<^sup>2 + cos lat1 * cos lat2 * (sin (dlon / 2))\<^sup>2)"

definition haversine_distance :: "real \<Rightarrow> real \<Rightarrow> real \<Rightarrow> real \<Rightarrow> py_error + real" where
  "haversine_distance lat1 lon1 lat2 lon2 =
     (let a = haversine_a (radians lat1) (radians lon1) (radians lat2) (radians lon2)
      in case py_sqrt a of
           Inl e \<Rightarrow> Inl e
         | Inr sq \<Rightarrow>
             (case py_asin sq of
                Inl e \<Rightarrow> Inl e
              | Inr asn \<Rightarrow> (let c = 2 * asn; r = 6371 in Inr (c * r))))"

definition CITY_COORDINATES :: "(string \<times> real \<times> real) list" where
  "CITY_COORDINATES =
     [(''VELLORE'', (12.9165, 79.1325)),
      (''CHENNAI'', (13.0827, 80.2707)),
      (''DELHI'', (28.6139, 77.2090)),
      (''MUMBAI'', (19.0760, 72.8777)),
      (''LONDON'', (51.5074, - 0.1278)),
      (''NEW YORK'', (40.7128, - 74.0060)),
      (''AHMEDABAD'', (23.0225, 72.5714)),
      (''BENGALURU'', (12.9716, 77.5946)),
      (''HYDERABAD'', (17.3850, 78.4867)),
      (''KOLKATA'', (22.5726, 88.3639)),
      (''DUBAI'', (25.276987, 55.296249)),
      (''PARIS'', (48.8566, 2.3522)),
      (''TOKYO'', (35.6762, 139.6503)),
      (''SYDNEY'', (- 33.8688, 151.2093)),
      (''SINGAPORE'', (1.3521, 103.8198)),
      (''HONG KONG'', (22.3193, 114.1694)),
      (''SAN FRANCISCO'', (37.7749, - 122.4194)),
      (''BERLIN'', (52.5200, 13.4050)),
      (''TORONTO'', (43.6532, - 79.3832)),
      (''CAIRO'', (30.0444, 31.2357))]"

text \<open>
  \<open>CITY_COORDINATES.get\<close> gives \<open>None\<close> for a missing city, and every stored
  coordinate pair is a non-empty tuple, hence truthy: \<open>coord1 and coord2\<close> holds
  exactly when both cities are in the table.
\<close>

definition calculate_distance :: "string \<Rightarrow> string \<Rightarrow> py_error + real" where
  "calculate_distance from_city to_city =
     (case (map_of CITY_COORDINATES from_city, map_of CITY_COORDINATES to_city) of
        (Some coord1, Some coord2) \<Rightarrow>
          (case haversine_distance (fst coord1) (snd coord1) (fst coord2) (snd coord2) of
             Inl e \<Rightarrow> Inl e
           | Inr d \<Rightarrow> Inr (py_round d 2))
      | _ \<Rightarrow> Inr 0)"

subsection \<open>Emission factor tables\<close>

datatype factor_entry = Flat real | Tiered "(string \<times> real) list"

definition EMISSION_FACTORS :: "(string \<times> factor_entry) list" where
  "EMISSION_FACTORS =
     [(''FLIGHT - ECONOMY'',
         Tiered [(''short_haul'', 0.15), (''medium_haul'', 0.12), (''long_haul'', 0.09)]),
      (''FLIGHT - BUSINESS'',
         Tiered [(''short_haul'', 0.30), (''medium_haul'', 0.24), (''long_haul'', 0.18)]),
      (''FLIGHT - FIRST'',
         Tiered [(''short_haul'', 0.45), (''medium_haul'', 0.36), (''long_haul'', 0.27)]),
      (''TRAIN - STANDARD'', Flat 0.035),
      (''TRAIN - HIGH SPEED'', Flat 0.05),
      (''BUS - STANDARD'', Flat 0.04),
      (''BUS - COACH'', Flat 0.03),
      (''CAR - GASOLINE'', Flat 0.12),
      (''CAR - DIESEL'', Flat 0.14),
      (''CAR - HYBRID'', Flat 0.08),
      (''CAR - ELECTRIC'', Flat 0.05),
      (''TAXI'', Flat 0.15),
      (''FERRY'', Flat 0.19)]"

definition HOTEL_EMISSION_FACTORS :: "(string \<times> real) list" where
  "HOTEL_EMISSION_FACTORS = [(''BUDGET'', 15.0), (''MID-RANGE'', 25.0), (''LUXURY'', 40.0)]"

definition MEAL_EMISSION_FACTORS :: "(string \<times> real) list" where
  "MEAL_EMISSION_FACTORS = [(''VEGAN'', 1.5), (''VEGETARIAN'', 2.5), (''OMNIVORE'', 4.0)]"

text \<open>\<open>EMISSION_FACTORS[cls][category]\<close>: two subscripts, each of which can raise.\<close>

definition tier_get :: "string \<Rightarrow> string \<Rightarrow> py_error + real" where
  "tier_get cls category =
     (case dict_get EMISSION_FACTORS cls of
        Inl e \<Rightarrow> Inl e
      | Inr (Flat _) \<Rightarrow> Inl TypeError
      | Inr (Tiered bands) \<Rightarrow> dict_get bands category)"

text \<open>Lines 117 to 122: the band of a flight distance.\<close>

definition flight_category :: "real \<Rightarrow> string" where
  "flight_category distance =
     (if distance < 800 then ''short_haul''
      else if distance < 3700 then ''medium_haul''
      else ''long_haul'')"

definition get_flight_emission_factor :: "real \<Rightarrow> string \<Rightarrow> py_error + real" where
  "get_flight_emission_factor distance travel_class =
     (let category = flight_category distance
      in if travel_class = ''FLIGHT - ECONOMY'' then tier_get ''FLIGHT - ECONOMY'' category
         else if travel_class = ''FLIGHT - BUSINESS'' then tier_get ''FLIGHT - BUSINESS'' category
         else tier_get ''FLIGHT - FIRST'' category)"

subsection \<open>Python floats\<close>

datatype pyfloat = Finite real | PosInf | NegInf | NaN

text \<open>
  \<open>flog2 y\<close> is the exponent of the binary digit that leads \<open>y > 0\<close>: halve while
  \<open>y \<ge> 2\<close>, double while \<open>y < 1\<close>.
\<close>

function log2_up :: "real \<Rightarrow> int" where
  "log2_up y = (if 2 \<le> y then log2_up (y / 2) + 1 else 0)"
  by pat_completeness auto
termination
proof (relation "measure (\<lambda>y. nat \<lfloor>y\<rfloor>)")
  show "wf (measure (\<lambda>y::real. nat \<lfloor>y\<rfloor>))" by simp
next
  fix y :: real
  assume y: "2 \<le> y"
  have "y / 2 < of_int \<lfloor>y\<rfloor>" using y floor_correct [of y] by linarith
  then have "\<lfloor>y / 2\<rfloor> < \<lfloor>y\<rfloor>" by (simp add: floor_less_iff)
  moreover have "0 < \<lfloor>y\<rfloor>" using y by simp
  ultimately show "(y / 2, y) \<in> measure (\<lambda>y. nat \<lfloor>y\<rfloor>)" by simp
qed

function log2_down :: "real \<Rightarrow> int" where
  "log2_down y = (if 0 < y \<and> y < 1 then log2_down (y * 2) - 1 else 0)"
  by pat_completeness auto
termination
proof (relation "measure (\<lambda>y. nat \<lceil>1 / y\<rceil>)")
  show "wf (measure (\<lambda>y::real. nat \<lceil>1 / y\<rceil>))" by simp
next
  fix y :: real
  assume y: "0 < y \<and> y < 1"
  define z where "z = 1 / y"
  have z: "1 < z" using y by (simp add: z_def)
  have h: "1 / (y * 2) = z / 2" by (simp add: z_def)
  have "z / 2 \<le> of_int (\<lceil>z\<rceil> - 1)"
  proof (cases "2 \<le> z")
    case True
    have "z \<le> of_int \<lceil>z\<rceil>" by (rule le_of_int_ceiling)
    with True have "z / 2 \<le> of_int \<lceil>z\<rceil> - 1" by linarith
    then show ?thesis by (simp only: of_int_diff of_int_1)
  next
    case False
    have "2 \<le> \<lceil>z\<rceil>" using z by linarith
    then have "(1::real) \<le> of_int (\<lceil>z\<rceil> - 1)" by simp
    with False show ?thesis by linarith
  qed
  then have "\<lceil>z / 2\<rceil> \<le> \<lceil>z\<rceil> - 1" by (simp only: ceiling_le_iff)
  then have "\<lceil>z / 2\<rceil> < \<lceil>z\<rceil>" by simp
  moreover have "0 < \<lceil>z\<rceil>" using z by linarith
  ultimately have "nat \<lceil>1 / (y * 2)\<rceil> < nat \<lceil>1 / y\<rceil>"
    unfolding h unfolding z_def by simp
  then show "(y * 2, y) \<in> measure (\<lambda>y. nat \<lceil>1 / y\<rceil>)" by simp
qed

definition flog2 :: "real \<Rightarrow> int" where
  "flog2 y = (if 1 \<le> y then log2_up y else log2_down y)"

definition pow2 :: "int \<Rightarrow> real" where
  "pow2 e = (if 0 \<le> e then 2 ^ nat e else 1 / 2 ^ nat (- e))"

text \<open>
  The float nearest to an exact value: 53 significant bits, exponents down to the
  subnormal step \<open>2^-1074\<close>, ties to the even significand, and an infinity when the
  rounded value reaches \<open>2^1024\<close>.
\<close>

definition rnd :: "real \<Rightarrow> pyfloat" where
  "rnd x =
     (if x = 0 then Finite 0
      else let e = max (flog2 \<bar>x\<bar> - 52) (- 1074);
               y = of_int (round_half_even (x / pow2 e)) * pow2 e
           in if 2 ^ 1024 \<le> \<bar>y\<bar> then (if 0 < x then PosInf else NegInf) else Finite y)"

text \<open>The float a decimal literal denotes.\<close>

definition double :: "real \<Rightarrow> pyfloat" where
  "double literal = rnd literal"

text \<open>
  An int that meets a float is converted first, and the conversion raises when the
  int is beyond the floats.
\<close>

definition to_float :: "int \<Rightarrow> py_error + real" where
  "to_float n =
     (case rnd (of_int n) of
        Finite y \<Rightarrow> Inr y
      | _ \<Rightarrow> Inl OverflowError)"

fun fadd :: "pyfloat \<Rightarrow> pyfloat \<Rightarrow> pyfloat" where
  "fadd (Finite x) (Finite y) = rnd (x + y)"
| "fadd NaN _ = NaN"
| "fadd _ NaN = NaN"
| "fadd PosInf NegInf = NaN"
| "fadd NegInf PosInf = NaN"
| "fadd PosInf _ = PosInf"
| "fadd _ PosInf = PosInf"
| "fadd NegInf _ = NegInf"
| "fadd _ NegInf = NegInf"

fun fmul :: "pyfloat \<Rightarrow> pyfloat \<Rightarrow> pyfloat" where
  "fmul (Finite x) (Finite y) = rnd (x * y)"
| "fmul NaN _ = NaN"
| "fmul _ NaN = NaN"
| "fmul PosInf (Finite y) = (if y = 0 then NaN else if 0 < y then PosInf else NegInf)"
| "fmul NegInf (Finite y) = (if y = 0 then NaN else if 0 < y then NegInf else PosInf)"
| "fmul (Finite x) PosInf = (if x = 0 then NaN else if 0 < x then PosInf else NegInf)"
| "fmul (Finite x) NegInf = (if x = 0 then NaN else if 0 < x then NegInf else PosInf)"
| "fmul PosInf PosInf = PosInf"
| "fmul NegInf NegInf = PosInf"
| "fmul PosInf NegInf = NegInf"
| "fmul NegInf PosInf = NegInf"

text \<open>Division by a finite float that is not zero.\<close>

fun fdiv :: "pyfloat \<Rightarrow> real \<Rightarrow> pyfloat" where
  "fdiv (Finite x) b = rnd (x / b)"
| "fdiv PosInf b = (if 0 < b then PosInf else NegInf)"
| "fdiv NegInf b = (if 0 < b then NegInf else PosInf)"
| "fdiv NaN b = NaN"

text \<open>
  \<open>x / n\<close> for a float \<open>x\<close> and an int \<open>n\<close>: the int is converted, then a zero divisor
  raises.
\<close>

definition py_truediv :: "pyfloat \<Rightarrow> int \<Rightarrow> py_error + pyfloat" where
  "py_truediv x n =
     (case to_float n of
        Inl e \<Rightarrow> Inl e
      | Inr b \<Rightarrow> if b = 0 then Inl ZeroDivisionError else Inr (fdiv x b))"

text \<open>
  \<open>round(x, ndigits)\<close> of a float: the exact value is rounded half to even at
  \<open>ndigits\<close> decimals and the float nearest to that decimal is returned; an infinity
  or a NaN is returned as it is.
\<close>

definition float_round :: "pyfloat \<Rightarrow> nat \<Rightarrow> pyfloat" where
  "float_round x ndigits =
     (case x of
        Finite v \<Rightarrow> rnd (py_round v ndigits)
      | _ \<Rightarrow> x)"

subsection \<open>Session state and the inputs of one submission\<close>

record trip_detail =
  From_city :: string
  To_city :: string
  Mode :: string
  Distance_km :: real
  Emission_kg :: pyfloat

record entry =
  Employee_ID :: string
  Name :: string
  Department :: string
  Purpose :: string
  Start_Date :: string
  End_Date :: string
  Transport_Emissions :: pyfloat
  Accommodation_Emissions :: pyfloat
  Meal_Emissions :: pyfloat
  Total_Emissions :: pyfloat
  Timestamp :: string

record session_state =
  emissions_data :: "entry list"
  total_emissions :: pyfloat
  trip_details :: "trip_detail list"
  transport_emissions :: pyfloat
  accommodation_emissions :: pyfloat
  meal_emissions :: pyfloat

definition initial_state :: session_state where
  "initial_state =
     \<lparr>emissions_data = [], total_emissions = Finite 0, trip_details = [],
      transport_emissions = Finite 0, accommodation_emissions = Finite 0,
      meal_emissions = Finite 0\<rparr>"

text \<open>
  What the form hands to the button handler: the three lists built by the tabs, the
  sidebar fields, and the two dates and the clock already formatted by \<open>strftime\<close>.
  A trip is \<open>(from_city, to_city, travel_mode, passengers, distance)\<close>, a stay is
  \<open>(location, hotel_type, nights)\<close>, a meal row is \<open>(breakfast, lunch, dinner, nights)\<close>.
  The distance of a trip is what \<open>calculate_distance\<close> returned at line 315, 0 or a
  float rounded to 2 decimals; it is written as that decimal, and \<open>double\<close> of it is
  the float.
\<close>

type_synonym trip = "string \<times> string \<times> string \<times> int \<times> real"
type_synonym stay = "string \<times> string \<times> int"
type_synonym meal = "string \<times> string \<times> string \<times> int"

record submission =
  trip_data :: "trip list"
  stay_data :: "stay list"
  meal_data :: "meal list"
  employee_id :: string
  employee_name :: string
  department :: string
  travel_purpose :: string
  start_date :: string
  end_date :: string
  timestamp_now :: string

subsection \<open>The Calculate Emissions handler\<close>

text \<open>Lines 414 to 417: the factor of one trip.\<close>

definition select_emission_factor :: "real \<Rightarrow> string \<Rightarrow> py_error + real" where
  "select_emission_factor distance travel_mode =
     (if prefix ''FLIGHT'' travel_mode then get_flight_emission_factor distance travel_mode
      else (case dict_get EMISSION_FACTORS travel_mode of
              Inl e \<Rightarrow> Inl e
            | Inr (Flat f) \<Rightarrow> Inr f
            | Inr (Tiered _) \<Rightarrow> Inl TypeError))"

text \<open>Line 419: \<open>round((distance * emission_factor) / passengers, 2)\<close>.\<close>

definition trip_emission :: "real \<Rightarrow> real \<Rightarrow> int \<Rightarrow> py_error + pyfloat" where
  "trip_emission distance emission_factor passengers =
     (case py_truediv (fmul (double distance) (double emission_factor)) passengers of
        Inl e \<Rightarrow> Inl e
      | Inr q \<Rightarrow> Inr (float_round q 2))"

text \<open>
  The accumulators start as the int 0, which a float addition converts to the float
  zero.
\<close>

fun trip_loop :: "trip list \<Rightarrow> pyfloat \<times> trip_detail list \<Rightarrow> py_error + pyfloat \<times> trip_detail list" where
  "trip_loop [] acc = Inr acc"
| "trip_loop ((from_city, to_city, travel_mode, passengers, distance) # rest) (subtotal, details) =
     (case select_emission_factor distance travel_mode of
        Inl e \<Rightarrow> Inl e
      | Inr emission_factor \<Rightarrow>
          (case trip_emission distance emission_factor passengers of
             Inl e \<Rightarrow> Inl e
           | Inr emission \<Rightarrow>
               trip_loop rest
                 (fadd subtotal emission,
                  details @ [\<lparr>From_city = from_city, To_city = to_city, Mode = travel_mode,
                              Distance_km = distance, Emission_kg = emission\<rparr>])))"

fun stay_loop :: "stay list \<Rightarrow> pyfloat \<Rightarrow> py_error + pyfloat" where
  "stay_loop [] subtotal = Inr subtotal"
| "stay_loop ((location, hotel_type, nights) # rest) subtotal =
     (case dict_get HOTEL_EMISSION_FACTORS hotel_type of
        Inl e \<Rightarrow> Inl e
      | Inr f \<Rightarrow>
          (case to_float nights of
             Inl e \<Rightarrow> Inl e
           | Inr n \<Rightarrow>
               (let stay_emission = fmul (double f) (Finite n)
                in stay_loop rest (fadd subtotal stay_emission))))"

text \<open>
  One of the three \<open>if meal != "None": daily_meal_emission += ...\<close> statements. The
  daily sum is \<open>None\<close> as long as it is still the int 0 it starts as, and a float from
  the first meal on.
\<close>

definition add_meal :: "string \<Rightarrow> pyfloat option \<Rightarrow> py_error + pyfloat option" where
  "add_meal choice daily =
     (if choice \<noteq> ''None''
      then (case dict_get MEAL_EMISSION_FACTORS choice of
              Inl e \<Rightarrow> Inl e
            | Inr f \<Rightarrow>
                Inr (Some (fadd (case daily of None \<Rightarrow> Finite 0 | Some d \<Rightarrow> d) (double f))))
      else Inr daily)"

definition daily_meal_emission :: "string \<Rightarrow> string \<Rightarrow> string \<Rightarrow> py_error + pyfloat option" where
  "daily_meal_emission breakfast lunch dinner =
     (case add_meal breakfast None of
        Inl e \<Rightarrow> Inl e
      | Inr d1 \<Rightarrow>
          (case add_meal lunch d1 of
             Inl e \<Rightarrow> Inl e
           | Inr d2 \<Rightarrow> add_meal dinner d2))"

text \<open>
  \<open>daily_meal_emission * nights\<close>: the int 0 times an int is the int 0 and converts
  nothing; a float times an int converts the int.
\<close>

definition times_nights :: "pyfloat option \<Rightarrow> int \<Rightarrow> py_error + pyfloat" where
  "times_nights daily nights =
     (case daily of
        None \<Rightarrow> Inr (Finite 0)
      | Some d \<Rightarrow>
          (case to_float nights of
             Inl e \<Rightarrow> Inl e
           | Inr n \<Rightarrow> Inr (fmul d (Finite n))))"

fun meal_loop :: "meal list \<Rightarrow> pyfloat \<Rightarrow> py_error + pyfloat" where
  "meal_loop [] subtotal = Inr subtotal"
| "meal_loop ((breakfast, lunch, dinner, nights) # rest) subtotal =
     (case daily_meal_emission breakfast lunch dinner of
        Inl e \<Rightarrow> Inl e
      | Inr daily \<Rightarrow>
          (case times_nights daily nights of
             Inl e \<Rightarrow> Inl e
           | Inr product \<Rightarrow> meal_loop rest (fadd subtotal product)))"

text \<open>Lines 457 to 469: the dictionary appended to the history.\<close>

definition make_entry :: "submission \<Rightarrow> pyfloat \<Rightarrow> pyfloat \<Rightarrow> pyfloat \<Rightarrow> pyfloat \<Rightarrow> entry" where
  "make_entry sub transport accommodation meals total_trip_emission =
     \<lparr>Employee_ID = employee_id sub,
      Name = employee_name sub,
      Department = department sub,
      Purpose = travel_purpose sub,
      Start_Date = start_date sub,
      End_Date = end_date sub,
      Transport_Emissions = float_round transport 2,
      Accommodation_Emissions = float_round accommodation 2,
      Meal_Emissions = float_round meals 2,
      Total_Emissions = float_round total_trip_emission 2,
      Timestamp = timestamp_now sub\<rparr>"

text \<open>
  Lines 448 to 473, once the three loops have returned: the total, the four assignments
  to the session, the entry, the append and the running total.
\<close>

definition store_results ::
  "session_state \<Rightarrow> submission \<Rightarrow> pyfloat \<Rightarrow> trip_detail list \<Rightarrow> pyfloat \<Rightarrow> pyfloat \<Rightarrow> session_state" where
  "store_results st sub transport details accommodation meals =
     (let total_trip_emission = fadd (fadd transport accommodation) meals;
          st1 = st\<lparr>transport_emissions := transport\<rparr>;
          st2 = st1\<lparr>accommodation_emissions := accommodation\<rparr>;
          st3 = st2\<lparr>meal_emissions := meals\<rparr>;
          st4 = st3\<lparr>trip_details := details\<rparr>;
          new_entry = make_entry sub transport accommodation meals total_trip_emission;
          st5 = st4\<lparr>emissions_data := emissions_data st4 @ [new_entry]\<rparr>
      in st5\<lparr>total_emissions := fadd (total_emissions st5) total_trip_emission\<rparr>)"

text \<open>
  The handler returns the session state it leaves behind and the exception that ended
  it, if any. The loops work on local variables only, so an exception raised in a loop
  leaves the session as the handler found it.
\<close>

definition calculate_emissions :: "session_state \<Rightarrow> submission \<Rightarrow> session_state \<times> py_error option" where
  "calculate_emissions st sub =
     (case trip_loop (trip_data sub) (Finite 0, []) of
        Inl e \<Rightarrow> (st, Some e)
      | Inr (transport, details) \<Rightarrow>
          (case stay_loop (stay_data sub) (Finite 0) of
             Inl e \<Rightarrow> (st, Some e)
           | Inr accommodation \<Rightarrow>
               (case meal_loop (meal_data sub) (Finite 0) of
                  Inl e \<Rightarrow> (st, Some e)
                | Inr meals \<Rightarrow>
                    (store_results st sub transport details accommodation meals, None))))"

text \<open>Pressing the button once per submission, in order; the session outlives a raise.\<close>

fun submit_all :: "session_state \<Rightarrow> submission list \<Rightarrow> session_state" where
  "submit_all st [] = st"
| "submit_all st (sub # subs) = submit_all (fst (calculate_emissions st sub)) subs"

subsection \<open>Notions used to state the properties\<close>

text \<open>
  The unrounded emission of a leg, \<open>distance * factor / passengers\<close> in float
  arithmetic, and the two orders in which a list of legs can be rounded and summed,
  each sum taken from 0 in the order of the list.
\<close>

fun leg_unrounded :: "trip \<Rightarrow> pyfloat" where
  "leg_unrounded (from_city, to_city, travel_mode, passengers, distance) =
     (case (select_emission_factor distance travel_mode, to_float passengers) of
        (Inr f, Inr n) \<Rightarrow> fdiv (fmul (double distance) (double f)) n
      | _ \<Rightarrow> NaN)"

definition leg_emission :: "trip \<Rightarrow> pyfloat" where
  "leg_emission leg = float_round (leg_unrounded leg) 2"

definition round_then_sum :: "trip list \<Rightarrow> pyfloat" where
  "round_then_sum legs = foldl fadd (Finite 0) (map leg_emission legs)"

definition sum_then_round :: "trip list \<Rightarrow> pyfloat" where
  "sum_then_round legs = float_round (foldl fadd (Finite 0) (map leg_unrounded legs)) 2"

text \<open>
  Whether the handler runs to its end on a submission, the entry it then appends and
  the total it then adds; none of them depends on the session the handler starts from.
\<close>

definition succeeds :: "submission \<Rightarrow> bool" where
  "succeeds sub = (snd (calculate_emissions initial_state sub) = None)"

definition recorded_entry :: "submission \<Rightarrow> entry" where
  "recorded_entry sub = last (emissions_data (fst (calculate_emissions initial_state sub)))"

definition unrounded_total :: "submission \<Rightarrow> pyfloat" where
  "unrounded_total sub =
     (let st = fst (calculate_emissions initial_state sub)
      in fadd (fadd (transport_emissions st) (accommodation_emissions st)) (meal_emissions st))"

text \<open>The exact value of a finite float.\<close>

fun fval :: "pyfloat \<Rightarrow> real" where
  "fval (Finite x) = x"
| "fval _ = 0"

text \<open>
  Three submissions to run the handler on. The first completes: three legs from
  Vellore to Chennai (124.7 km), three nights and two meals a day. The second raises
  in the meal loop. The third completes with a stay of \<open>2 * 10^14\<close> nights.
\<close>

definition example_submission :: submission where
  "example_submission =
     \<lparr>trip_data =
        [(''VELLORE'', ''CHENNAI'', ''FLIGHT - FIRST'', 1, 124.7),
         (''VELLORE'', ''CHENNAI'', ''CAR - HYBRID'', 1, 124.7),
         (''VELLORE'', ''CHENNAI'', ''TRAIN - HIGH SPEED'', 1, 124.7)],
      stay_data = [(''CHENNAI'', ''BUDGET'', 3)],
      meal_data = [(''VEGAN'', ''OMNIVORE'', ''None'', 3)],
      employee_id = ''E1'', employee_name = ''A'', department = ''IT'',
      travel_purpose = ''Training'', start_date = ''2025-01-01'', end_date = ''2025-01-08'',
      timestamp_now = ''2025-01-01 09:00:00''\<rparr>"

definition failing_submission :: submission where
  "failing_submission = example_submission\<lparr>meal_data := [(''VEGAN'', ''PESCATARIAN'', ''None'', 2)]\<rparr>"

definition long_stay_submission :: submission where
  "long_stay_submission =
     example_submission
       \<lparr>trip_data :=
          [(''BENGALURU'', ''CAIRO'', ''CAR - DIESEL'', 1, 5115.93),
           (''CAIRO'', ''DUBAI'', ''BUS - STANDARD'', 1, 2423.28),
           (''HYDERABAD'', ''KOLKATA'', ''TRAIN - HIGH SPEED'', 1, 1181.88)],
        stay_data := [(''CAIRO'', ''BUDGET'', 200000000000000)],
        meal_data := [(''None'', ''None'', ''None'', 200000000000000)]\<rparr>"

section \<open>Properties\<close>

declare log2_up.simps [simp del] log2_down.simps [simp del]

text \<open>The equations that evaluate float arithmetic and factor lookups on numerals.\<close>

lemmas float_eval = log2_up.simps log2_down.simps rnd_def flog2_def pow2_def round_half_even_def
  py_round_def Let_def double_def to_float_def float_round_def py_truediv_def

lemmas factor_eval = select_emission_factor_def get_flight_emission_factor_def
  flight_category_def tier_get_def dict_get_def EMISSION_FACTORS_def


subsection \<open>Rounding\<close>

lemma rhe_bound: "\<bar>of_int (round_half_even y) - y\<bar> \<le> 1 / 2"
  unfolding round_half_even_def Let_def by (auto; linarith)

lemma py_round_bound: "\<bar>py_round x 2 - x\<bar> \<le> 1 / 200"
  using rhe_bound [of "x * 100"] by (simp add: py_round_def field_simps abs_le_iff)

lemma py_round_is_cents: "py_round x 2 * 100 \<in> \<int>"
  by (simp add: py_round_def)


subsection \<open>Floats\<close>

text \<open>\<open>flog2\<close> brackets its argument between two powers of two.\<close>

lemma pow2_pos: "0 < pow2 e"
  by (simp add: pow2_def)

lemma pow2_succ: "pow2 (e + 1) = 2 * pow2 e"
proof -
  consider "0 \<le> e" | "e = - 1" | "e < - 1" by linarith
  then show ?thesis
  proof cases
    case 1
    then have "nat (e + 1) = Suc (nat e)" by simp
    with 1 show ?thesis by (simp add: pow2_def)
  next
    case 2
    then show ?thesis by (simp add: pow2_def)
  next
    case 3
    then have "nat (- e) = Suc (nat (- e - 1))" by simp
    with 3 show ?thesis by (simp add: pow2_def)
  qed
qed

lemma pow2_pred: "pow2 (e - 1) = pow2 e / 2"
  using pow2_succ [of "e - 1"] by simp

lemma pow2_sub_nat: "pow2 (e - int n) = pow2 e / 2 ^ n"
proof (induction n)
  case 0
  then show ?case by simp
next
  case (Suc n)
  have "pow2 (e - int (Suc n)) = pow2 (e - int n - 1)" by (simp add: algebra_simps)
  also have "\<dots> = pow2 (e - int n) / 2" by (rule pow2_pred)
  finally show ?case by (simp add: Suc.IH)
qed

lemma log2_up_bounds:
  "1 \<le> y \<Longrightarrow> pow2 (log2_up y) \<le> y \<and> y < 2 * pow2 (log2_up y)"
proof (induction y rule: log2_up.induct)
  case (1 y)
  show ?case
  proof (cases "2 \<le> y")
    case True
    then have "pow2 (log2_up (y / 2)) \<le> y / 2 \<and> y / 2 < 2 * pow2 (log2_up (y / 2))"
      using "1.IH" by simp
    moreover have "log2_up y = log2_up (y / 2) + 1" using True by (subst log2_up.simps) simp
    ultimately show ?thesis by (simp add: pow2_succ)
  next
    case False
    then have "log2_up y = 0" by (subst log2_up.simps) simp
    with False "1.prems" show ?thesis by (simp add: pow2_def)
  qed
qed

lemma log2_down_bounds:
  "0 < y \<Longrightarrow> y < 1 \<Longrightarrow> pow2 (log2_down y) \<le> y \<and> y < 2 * pow2 (log2_down y)"
proof (induction y rule: log2_down.induct)
  case (1 y)
  have step: "log2_down y = log2_down (y * 2) - 1"
    using "1.prems" by (subst log2_down.simps) simp
  show ?case
  proof (cases "y * 2 < 1")
    case True
    then have "pow2 (log2_down (y * 2)) \<le> y * 2 \<and> y * 2 < 2 * pow2 (log2_down (y * 2))"
      using "1.IH" "1.prems" by simp
    then show ?thesis by (simp add: step pow2_pred)
  next
    case False
    then have "log2_down (y * 2) = 0" by (subst log2_down.simps) simp
    with False "1.prems" show ?thesis by (simp add: step pow2_def)
  qed
qed

lemma flog2_bounds:
  "0 < y \<Longrightarrow> pow2 (flog2 y) \<le> y \<and> y < 2 * pow2 (flog2 y)"
  using log2_up_bounds [of y] log2_down_bounds [of y] by (simp add: flog2_def)


text \<open>
  A finite float is within half a unit in the last place of the exact value, a value
  of moderate size rounds to a finite float, and only 0 converts to the float zero.
\<close>

lemma rnd_cases:
  obtains y where "rnd x = Finite y \<or> rnd x = PosInf \<or> rnd x = NegInf"
    and "\<bar>y - x\<bar> \<le> \<bar>x\<bar> / 2 ^ 53 + 1 / 2 ^ 1075"
    and "rnd x = Finite y \<longleftrightarrow> \<bar>y\<bar> < 2 ^ 1024"
proof (cases "x = 0")
  case True
  show ?thesis by (rule that [of 0]) (simp_all add: rnd_def True)
next
  case False
  define e where "e = max (flog2 \<bar>x\<bar> - 52) (- 1074)"
  define y where "y = of_int (round_half_even (x / pow2 e)) * pow2 e"
  have r: "rnd x = (if 2 ^ 1024 \<le> \<bar>y\<bar> then (if 0 < x then PosInf else NegInf) else Finite y)"
    using False by (simp add: rnd_def e_def y_def Let_def)
  have "y - x = (of_int (round_half_even (x / pow2 e)) - x / pow2 e) * pow2 e"
    using pow2_pos [of e] by (simp add: y_def algebra_simps)
  then have "\<bar>y - x\<bar> = \<bar>of_int (round_half_even (x / pow2 e)) - x / pow2 e\<bar> * pow2 e"
    using pow2_pos [of e] by (simp add: abs_mult)
  also have "\<dots> \<le> 1 / 2 * pow2 e"
    using rhe_bound [of "x / pow2 e"] pow2_pos [of e] by (intro mult_right_mono) simp_all
  finally have err: "\<bar>y - x\<bar> \<le> pow2 e / 2" by simp
  have "pow2 e / 2 \<le> \<bar>x\<bar> / 2 ^ 53 + 1 / 2 ^ 1075"
  proof (cases "- 1074 \<le> flog2 \<bar>x\<bar> - 52")
    case True
    then have "e = flog2 \<bar>x\<bar> - int 52" by (simp add: e_def)
    then have "pow2 e = pow2 (flog2 \<bar>x\<bar>) / 2 ^ 52" by (simp only: pow2_sub_nat)
    moreover have "pow2 (flog2 \<bar>x\<bar>) \<le> \<bar>x\<bar>" using flog2_bounds [of "\<bar>x\<bar>"] False by simp
    ultimately have "pow2 e / 2 \<le> \<bar>x\<bar> / 2 ^ 53" by (simp add: field_simps)
    then show ?thesis by (simp add: add_increasing2)
  next
    case False
    then have "e = - 1074" by (simp add: e_def)
    then have "pow2 e / 2 = 1 / 2 ^ 1075" by (simp add: pow2_def)
    then show ?thesis by simp
  qed
  with err have "\<bar>y - x\<bar> \<le> \<bar>x\<bar> / 2 ^ 53 + 1 / 2 ^ 1075" by linarith
  moreover have "rnd x = Finite y \<or> rnd x = PosInf \<or> rnd x = NegInf" by (simp add: r)
  moreover have "rnd x = Finite y \<longleftrightarrow> \<bar>y\<bar> < 2 ^ 1024" by (auto simp: r)
  ultimately show ?thesis using that by blast
qed

lemma rnd_error:
  assumes "rnd x = Finite y"
  shows "\<bar>y - x\<bar> \<le> \<bar>x\<bar> / 2 ^ 53 + 1 / 2 ^ 1075"
proof -
  obtain z where "rnd x = Finite z \<or> rnd x = PosInf \<or> rnd x = NegInf"
    and "\<bar>z - x\<bar> \<le> \<bar>x\<bar> / 2 ^ 53 + 1 / 2 ^ 1075" by (rule rnd_cases)
  with assms show ?thesis by auto
qed

lemma rnd_finite:
  assumes "\<bar>x\<bar> \<le> 2 ^ 1022"
  shows "\<exists>y. rnd x = Finite y"
proof -
  obtain z where z: "\<bar>z - x\<bar> \<le> \<bar>x\<bar> / 2 ^ 53 + 1 / 2 ^ 1075"
    and f: "rnd x = Finite z \<longleftrightarrow> \<bar>z\<bar> < 2 ^ 1024" by (rule rnd_cases)
  have "\<bar>x\<bar> / 2 ^ 53 \<le> \<bar>x\<bar>" by (simp add: field_simps)
  moreover have "(1::real) / 2 ^ 1075 \<le> 1" by simp
  ultimately have "\<bar>z\<bar> \<le> 2 * \<bar>x\<bar> + 1" using z by linarith
  also have "\<dots> \<le> 2 * 2 ^ 1022 + 1" using assms by simp
  also have "\<dots> < (2::real) ^ 1024" by simp
  finally show ?thesis using f by blast
qed

lemma rnd_nonzero:
  assumes "1 \<le> \<bar>x\<bar>"
  shows "rnd x \<noteq> Finite 0"
proof
  assume "rnd x = Finite 0"
  from rnd_error [OF this] have "\<bar>x\<bar> \<le> \<bar>x\<bar> / 2 ^ 53 + 1 / 2 ^ 1075" by simp
  moreover have "\<bar>x\<bar> / 2 ^ 53 \<le> \<bar>x\<bar> / 2" by (simp add: field_simps)
  moreover have "(1::real) / 2 ^ 1075 \<le> 1 / 4" by simp
  ultimately show False using assms by linarith
qed

lemma to_float_zero: "to_float n = Inr q \<Longrightarrow> q = 0 \<longleftrightarrow> n = 0"
proof -
  assume a: "to_float n = Inr q"
  then have r: "rnd (of_int n) = Finite q" by (simp add: to_float_def split: pyfloat.splits)
  show ?thesis
  proof (cases "n = 0")
    case True
    with r show ?thesis by (simp add: rnd_def)
  next
    case False
    then have "1 \<le> \<bar>real_of_int n\<bar>" by linarith
    from rnd_nonzero [OF this] r False show ?thesis by auto
  qed
qed

lemma fadd_Finite:
  "fadd x y = Finite s \<Longrightarrow> \<exists>a b. x = Finite a \<and> y = Finite b \<and> rnd (a + b) = Finite s"
  by (cases x; cases y) simp_all


subsection \<open>Distances\<close>

text \<open>
  The argument of \<open>math.sqrt\<close> lies in \<open>[0, 1]\<close> for all coordinates, so neither
  \<open>math.sqrt\<close> nor \<open>math.asin\<close> raises and \<open>haversine_distance\<close> always returns.
\<close>

lemma sin_half_diff_sq: "(sin ((a - b) / 2))\<^sup>2 = (sin ((b - a) / 2))\<^sup>2" for a b :: real
proof -
  have "(a - b) / 2 = - ((b - a) / 2)" by argo
  then show ?thesis by (metis sin_minus power2_minus)
qed

lemma haversine_a_sym: "haversine_a lat1 lon1 lat2 lon2 = haversine_a lat2 lon2 lat1 lon1"
  by (simp add: haversine_a_def Let_def sin_half_diff_sq [of lat2 lat1]
        sin_half_diff_sq [of lon2 lon1] mult.commute)


lemma sin_half_sq: "(sin (x / 2))\<^sup>2 = (1 - cos x) / 2" for x :: real
  using cos_double_sin [of "x / 2"] by simp

lemma haversine_a_range: "0 \<le> haversine_a lat1 lon1 lat2 lon2 \<and> haversine_a lat1 lon1 lat2 lon2 \<le> 1"
proof -
  define S where "S = (sin ((lat2 - lat1) / 2))\<^sup>2"
  define T where "T = (sin ((lon2 - lon1) / 2))\<^sup>2"
  define C where "C = cos lat1 * cos lat2"
  have a: "haversine_a lat1 lon1 lat2 lon2 = (1 - T) * S + T * (S + C)"
    by (simp add: haversine_a_def Let_def S_def T_def C_def algebra_simps)
  have S0: "0 \<le> S" and T0: "0 \<le> T" by (simp_all add: S_def T_def)
  have S1: "S \<le> 1" and T1: "T \<le> 1"
    unfolding S_def T_def by (simp_all add: sin_half_sq)
  have SC: "S + C = (1 + cos (lat1 + lat2)) / 2"
    unfolding S_def C_def sin_half_sq by (simp add: cos_add cos_diff field_simps)
  have "0 \<le> 1 + cos (lat1 + lat2)"
    using cos_ge_minus_one [of "lat1 + lat2"] by linarith
  then have SC0: "0 \<le> S + C"
    unfolding SC by simp
  have "1 + cos (lat1 + lat2) \<le> 2"
    using cos_le_one [of "lat1 + lat2"] by linarith
  then have SC1: "S + C \<le> 1"
    unfolding SC by simp
  have lo: "0 \<le> (1 - T) * S + T * (S + C)"
    using S0 T0 T1 SC0 by (simp add: mult_nonneg_nonneg)
  have "(1 - T) * S \<le> (1 - T) * 1" using S1 T1 by (intro mult_left_mono) simp_all
  moreover have "T * (S + C) \<le> T * 1" using SC1 T0 by (intro mult_left_mono) simp_all
  ultimately have hi: "(1 - T) * S + T * (S + C) \<le> 1" by simp
  show ?thesis using lo hi a by simp
qed

lemma haversine_distance_total:
  "haversine_distance lat1 lon1 lat2 lon2 =
     Inr (2 * arcsin (sqrt (haversine_a (radians lat1) (radians lon1) (radians lat2) (radians lon2))) * 6371)"
proof -
  let ?a = "haversine_a (radians lat1) (radians lon1) (radians lat2) (radians lon2)"
  have r: "0 \<le> ?a" "?a \<le> 1" using haversine_a_range by blast+
  have q: "py_sqrt ?a = Inr (sqrt ?a)" using r by (simp add: py_sqrt_def)
  have "0 \<le> sqrt ?a" "sqrt ?a \<le> 1" using r by simp_all
  then have "\<not> (sqrt ?a < - 1 \<or> 1 < sqrt ?a)" by linarith
  then have p: "py_asin (sqrt ?a) = Inr (arcsin (sqrt ?a))" unfolding py_asin_def by (rule if_not_P)
  show ?thesis by (simp add: haversine_distance_def Let_def q p)
qed

lemma haversine_distance_sym:
  "haversine_distance lat1 lon1 lat2 lon2 = haversine_distance lat2 lon2 lat1 lon1"
  by (simp only: haversine_distance_total
        haversine_a_sym [of "radians lat1" "radians lon1" "radians lat2" "radians lon2"])

text \<open>
  C7. \<open>calculate_distance\<close> returns 0, without raising, as soon as one of the two
  names is missing from \<open>CITY_COORDINATES\<close>. When both are present, with coordinates
  \<open>(lat1, lon1)\<close> and \<open>(lat2, lon2)\<close> in degrees, it returns the haversine distance
  \<open>d = 2 * asin(sqrt(sin^2((lat2 - lat1)/2) + cos(lat1) * cos(lat2) * sin^2((lon2 - lon1)/2))) * 6371\<close>,
  the angles taken in radians (degrees times \<open>pi / 180\<close>), rounded to 2 decimals: a
  whole number of hundredths, at most half a hundredth from \<open>d\<close>.
\<close>

theorem calculate_distance_cases:
  "(map_of CITY_COORDINATES a = None \<or> map_of CITY_COORDINATES b = None \<longrightarrow>
      calculate_distance a b = Inr 0) \<and>
   (\<forall>lat1 lon1 lat2 lon2.
      map_of CITY_COORDINATES a = Some (lat1, lon1) \<and>
      map_of CITY_COORDINATES b = Some (lat2, lon2) \<longrightarrow>
      (\<exists>d r.
         d = 2 * arcsin (sqrt ((sin ((lat2 * pi / 180 - lat1 * pi / 180) / 2))\<^sup>2 +
                               cos (lat1 * pi / 180) * cos (lat2 * pi / 180) *
                               (sin ((lon2 * pi / 180 - lon1 * pi / 180) / 2))\<^sup>2)) * 6371 \<and>
         calculate_distance a b = Inr r \<and>
         r = of_int (round_half_even (d * 100)) / 100 \<and>
         r * 100 \<in> \<int> \<and> \<bar>r - d\<bar> \<le> 1 / 200))"
proof (intro conjI allI impI)
  assume "map_of CITY_COORDINATES a = None \<or> map_of CITY_COORDINATES b = None"
  then show "calculate_distance a b = Inr 0"
    by (auto simp: calculate_distance_def split: option.splits)
next
  fix lat1 lon1 lat2 lon2
  assume c: "map_of CITY_COORDINATES a = Some (lat1, lon1) \<and>
      map_of CITY_COORDINATES b = Some (lat2, lon2)"
  define d where "d = 2 * arcsin (sqrt ((sin ((lat2 * pi / 180 - lat1 * pi / 180) / 2))\<^sup>2 +
                               cos (lat1 * pi / 180) * cos (lat2 * pi / 180) *
                               (sin ((lon2 * pi / 180 - lon1 * pi / 180) / 2))\<^sup>2)) * 6371"
  have h: "haversine_distance lat1 lon1 lat2 lon2 = Inr d"
    by (simp add: haversine_distance_total haversine_a_def radians_def Let_def d_def)
  have "calculate_distance a b = Inr (py_round d 2)"
    using c by (simp add: calculate_distance_def h)
  moreover have "py_round d 2 = of_int (round_half_even (d * 100)) / 100"
    by (simp add: py_round_def)
  moreover have "py_round d 2 * 100 \<in> \<int>" by (rule py_round_is_cents)
  moreover have "\<bar>py_round d 2 - d\<bar> \<le> 1 / 200" by (rule py_round_bound)
  ultimately show "\<exists>d r.
         d = 2 * arcsin (sqrt ((sin ((lat2 * pi / 180 - lat1 * pi / 180) / 2))\<^sup>2 +
                               cos (lat1 * pi / 180) * cos (lat2 * pi / 180) *
                               (sin ((lon2 * pi / 180 - lon1 * pi / 180) / 2))\<^sup>2)) * 6371 \<and>
         calculate_distance a b = Inr r \<and>
         r = of_int (round_half_even (d * 100)) / 100 \<and>
         r * 100 \<in> \<int> \<and> \<bar>r - d\<bar> \<le> 1 / 200"
    unfolding d_def by metis
qed


text \<open>A missing name on either side, a city and itself, and Vellore to Chennai.\<close>

theorem calculate_distance_cases_witness:
  "calculate_distance ''ATLANTIS'' ''CHENNAI'' = Inr 0 \<and>
   calculate_distance ''VELLORE'' ''ATLANTIS'' = Inr 0 \<and>
   calculate_distance ''CHENNAI'' ''CHENNAI'' = Inr 0 \<and>
   calculate_distance ''VELLORE'' ''CHENNAI'' =
     Inr (of_int (round_half_even
       (2 * arcsin (sqrt ((sin ((13.0827 * pi / 180 - 12.9165 * pi / 180) / 2))\<^sup>2 +
                          cos (12.9165 * pi / 180) * cos (13.0827 * pi / 180) *
                          (sin ((80.2707 * pi / 180 - 79.1325 * pi / 180) / 2))\<^sup>2)) * 6371 * 100))
       / 100)"
proof -
  have 1: "calculate_distance ''ATLANTIS'' ''CHENNAI'' = Inr 0"
    using calculate_distance_cases [of "''ATLANTIS''" "''CHENNAI''"]
    by (simp add: CITY_COORDINATES_def)
  have 2: "calculate_distance ''VELLORE'' ''ATLANTIS'' = Inr 0"
    using calculate_distance_cases [of "''VELLORE''" "''ATLANTIS''"]
    by (simp add: CITY_COORDINATES_def)
  have c: "map_of CITY_COORDINATES ''CHENNAI'' = Some (13.0827, 80.2707)"
    "map_of CITY_COORDINATES ''VELLORE'' = Some (12.9165, 79.1325)"
    by (simp_all add: CITY_COORDINATES_def)
  from calculate_distance_cases [of "''CHENNAI''" "''CHENNAI''"] c(1)
  obtain d r where
    d: "d = 2 * arcsin (sqrt ((sin ((13.0827 * pi / 180 - 13.0827 * pi / 180) / 2))\<^sup>2 +
                               cos (13.0827 * pi / 180) * cos (13.0827 * pi / 180) *
                               (sin ((80.2707 * pi / 180 - 80.2707 * pi / 180) / 2))\<^sup>2)) * 6371"
    and r: "calculate_distance ''CHENNAI'' ''CHENNAI'' = Inr r"
      "r = of_int (round_half_even (d * 100)) / 100"
    by blast
  have "d = 0" unfolding d by simp
  then have "r = 0" using r(2) by (simp add: round_half_even_def)
  with r(1) have 3: "calculate_distance ''CHENNAI'' ''CHENNAI'' = Inr 0" by simp
  from calculate_distance_cases [of "''VELLORE''" "''CHENNAI''"] c
  have 4: "calculate_distance ''VELLORE'' ''CHENNAI'' =
     Inr (of_int (round_half_even
       (2 * arcsin (sqrt ((sin ((13.0827 * pi / 180 - 12.9165 * pi / 180) / 2))\<^sup>2 +
                          cos (12.9165 * pi / 180) * cos (13.0827 * pi / 180) *
                          (sin ((80.2707 * pi / 180 - 79.1325 * pi / 180) / 2))\<^sup>2)) * 6371 * 100))
       / 100)"
    by blast
  from 1 2 3 4 show ?thesis by (intro conjI)
qed


text \<open>
  C8. The distance is symmetric: \<open>calculate_distance a b = calculate_distance b a\<close>
  for all names, whether or not they are in the table.
\<close>

theorem calculate_distance_symmetric:
  "calculate_distance a b = calculate_distance b a"
proof (cases "map_of CITY_COORDINATES a")
  case None
  then show ?thesis by (simp add: calculate_distance_def split: option.splits)
next
  case A: (Some ca)
  show ?thesis
  proof (cases "map_of CITY_COORDINATES b")
    case None
    then show ?thesis by (simp add: calculate_distance_def split: option.splits)
  next
    case (Some cb)
    show ?thesis unfolding calculate_distance_def A Some
      by (simp add: haversine_distance_sym [of "fst ca" "snd ca"])
  qed
qed

subsection \<open>Emission factors\<close>

lemma tier_get_values:
  "tier_get ''FLIGHT - ECONOMY'' ''short_haul'' = Inr 0.15"
  "tier_get ''FLIGHT - ECONOMY'' ''medium_haul'' = Inr 0.12"
  "tier_get ''FLIGHT - ECONOMY'' ''long_haul'' = Inr 0.09"
  "tier_get ''FLIGHT - BUSINESS'' ''short_haul'' = Inr 0.30"
  "tier_get ''FLIGHT - BUSINESS'' ''medium_haul'' = Inr 0.24"
  "tier_get ''FLIGHT - BUSINESS'' ''long_haul'' = Inr 0.18"
  "tier_get ''FLIGHT - FIRST'' ''short_haul'' = Inr 0.45"
  "tier_get ''FLIGHT - FIRST'' ''medium_haul'' = Inr 0.36"
  "tier_get ''FLIGHT - FIRST'' ''long_haul'' = Inr 0.27"
  by (simp_all add: tier_get_def dict_get_def EMISSION_FACTORS_def)



text \<open>
  C2, as stated, fails: a mode that starts with \<open>FLIGHT\<close> and is no key of
  \<open>EMISSION_FACTORS\<close> gets the factor of \<open>FLIGHT - FIRST\<close> and no error.
\<close>

theorem unknown_flight_class_counterexample:
  "map_of EMISSION_FACTORS ''FLIGHT - PREMIUM'' = None \<and>
   get_flight_emission_factor 500 ''FLIGHT - PREMIUM'' = Inr 0.45 \<and>
   select_emission_factor 500 ''FLIGHT - PREMIUM'' = Inr 0.45"
  by (simp add: select_emission_factor_def get_flight_emission_factor_def flight_category_def
        tier_get_values EMISSION_FACTORS_def)

text \<open>
  C2, amended. A mode that does not start with \<open>FLIGHT\<close> and is no key of
  \<open>EMISSION_FACTORS\<close> raises \<open>KeyError\<close>. A mode that starts with \<open>FLIGHT\<close> and is
  neither \<open>FLIGHT - ECONOMY\<close> nor \<open>FLIGHT - BUSINESS\<close> is resolved as
  \<open>FLIGHT - FIRST\<close>, in the band of the distance.
\<close>

theorem unrecognized_mode_resolution:
  "(\<not> prefix ''FLIGHT'' travel_mode \<and> map_of EMISSION_FACTORS travel_mode = None \<longrightarrow>
      select_emission_factor distance travel_mode = Inl KeyError) \<and>
   (prefix ''FLIGHT'' travel_mode \<and> travel_mode \<noteq> ''FLIGHT - ECONOMY'' \<and>
    travel_mode \<noteq> ''FLIGHT - BUSINESS'' \<longrightarrow>
      select_emission_factor distance travel_mode =
        tier_get ''FLIGHT - FIRST'' (flight_category distance))"
  by (simp add: select_emission_factor_def get_flight_emission_factor_def dict_get_def Let_def)

theorem unrecognized_mode_resolution_witness:
  "select_emission_factor 500 ''SCOOTER'' = Inl KeyError \<and>
   select_emission_factor 500 ''FLIGHT - PREMIUM'' = Inr 0.45 \<and>
   select_emission_factor 4000 ''FLIGHT'' = Inr 0.27"
  using unrecognized_mode_resolution [of "''SCOOTER''" 500]
    unrecognized_mode_resolution [of "''FLIGHT - PREMIUM''" 500]
    unrecognized_mode_resolution [of "''FLIGHT''" 4000]
  by (simp add: EMISSION_FACTORS_def flight_category_def tier_get_values)

subsection \<open>One trip leg\<close>

lemma py_truediv_Inr:
  "py_truediv x p = Inr q \<Longrightarrow> \<exists>n. to_float p = Inr n \<and> p \<noteq> 0 \<and> q = fdiv x n"
  by (auto simp: py_truediv_def to_float_zero split: sum.splits if_splits)

lemma trip_emission_Inr:
  assumes "trip_emission d f p = Inr e"
  shows "\<exists>n. to_float p = Inr n \<and> p \<noteq> 0 \<and>
           e = float_round (fdiv (fmul (double d) (double f)) n) 2"
proof -
  from assms obtain q where q: "py_truediv (fmul (double d) (double f)) p = Inr q"
    and e: "e = float_round q 2"
    by (auto simp: trip_emission_def split: sum.splits)
  from py_truediv_Inr [OF q] e show ?thesis by auto
qed

lemma leg_emission_eq:
  assumes "select_emission_factor d m = Inr f" and "trip_emission d f p = Inr e"
  shows "e = leg_emission (fc, tc, m, p, d)"
  using trip_emission_Inr [OF assms(2)] assms(1) by (auto simp: leg_emission_def)


text \<open>
  C1, as stated, fails: with 0 passengers the division raises \<open>ZeroDivisionError\<close>,
  where \<open>round(distance * factor / max(passengers, 1), 2)\<close> is 18.7; the handler has no
  guard that would read 0 as 1.
\<close>

theorem zero_passengers_counterexample:
  "trip_emission 124.7 0.15 0 = Inl ZeroDivisionError \<and>
   (case to_float (max 0 1) of
      Inl e \<Rightarrow> Inl e
    | Inr n \<Rightarrow> Inr (float_round (fdiv (fmul (double 124.7) (double 0.15)) n) 2)) =
     (Inr (double 18.7) :: py_error + pyfloat)"
  by (simp add: trip_emission_def float_eval)


text \<open>
  C1, amended. With at least one passenger the emission of a leg is
  \<open>round(distance * factor / max(passengers, 1), 2)\<close> in float arithmetic, which is
  \<open>round(distance * factor / passengers, 2)\<close>, and an \<open>OverflowError\<close> when the
  passenger count is beyond the floats; with 0 passengers the division raises
  \<open>ZeroDivisionError\<close>.
\<close>

theorem trip_emission_formula:
  "(1 \<le> passengers \<longrightarrow>
      trip_emission distance emission_factor passengers =
        (case to_float (max passengers 1) of
           Inl e \<Rightarrow> Inl e
         | Inr n \<Rightarrow> Inr (float_round (fdiv (fmul (double distance) (double emission_factor)) n) 2))) \<and>
   (passengers = 0 \<longrightarrow>
      trip_emission distance emission_factor passengers = Inl ZeroDivisionError)"
proof (intro conjI impI)
  assume p: "1 \<le> passengers"
  then have m: "max passengers 1 = passengers" by simp
  show "trip_emission distance emission_factor passengers =
        (case to_float (max passengers 1) of
           Inl e \<Rightarrow> Inl e
         | Inr n \<Rightarrow> Inr (float_round (fdiv (fmul (double distance) (double emission_factor)) n) 2))"
  proof (cases "to_float passengers")
    case (Inl e)
    then show ?thesis by (simp add: m trip_emission_def py_truediv_def)
  next
    case (Inr n)
    with p have "n \<noteq> 0" using to_float_zero [OF Inr] by simp
    with Inr show ?thesis by (simp add: m trip_emission_def py_truediv_def)
  qed
next
  assume "passengers = 0"
  then show "trip_emission distance emission_factor passengers = Inl ZeroDivisionError"
    by (simp add: trip_emission_def py_truediv_def to_float_def rnd_def)
qed


text \<open>
  Legs of 4143.7 km at 0.05, 16094.5 km at 0.15 and 7030.75 km at 0.18, one passenger
  each; 124.7 km at 0.15 with 3, with 0 and with \<open>2^1024\<close> passengers.
\<close>

theorem trip_emission_formula_witness:
  "trip_emission 4143.7 0.05 1 = Inr (double 207.19) \<and>
   trip_emission 16094.5 0.15 1 = Inr (double 2414.17) \<and>
   trip_emission 7030.75 0.18 1 = Inr (double 1265.53) \<and>
   trip_emission 124.7 0.15 3 = Inr (double 6.23) \<and>
   trip_emission 124.7 0.15 0 = Inl ZeroDivisionError \<and>
   trip_emission 124.7 0.15 (2 ^ 1024) = Inl OverflowError"
proof -
  have "trip_emission 4143.7 0.05 1 = Inr (double 207.19)"
    using trip_emission_formula [of 1 "4143.7" "0.05"] by (simp add: float_eval)
  moreover have "trip_emission 16094.5 0.15 1 = Inr (double 2414.17)"
    using trip_emission_formula [of 1 "16094.5" "0.15"] by (simp add: float_eval)
  moreover have "trip_emission 7030.75 0.18 1 = Inr (double 1265.53)"
    using trip_emission_formula [of 1 "7030.75" "0.18"] by (simp add: float_eval)
  moreover have "trip_emission 124.7 0.15 3 = Inr (double 6.23)"
    using trip_emission_formula [of 3 "124.7" "0.15"] by (simp add: float_eval)
  moreover have "trip_emission 124.7 0.15 0 = Inl ZeroDivisionError"
    using trip_emission_formula [of 0 "124.7" "0.15"] by simp
  moreover have "trip_emission 124.7 0.15 (2 ^ 1024) = Inl OverflowError"
    using trip_emission_formula [of "2 ^ 1024" "124.7" "0.15"] by (simp add: float_eval)
  ultimately show ?thesis by (intro conjI)
qed


subsection \<open>The three loops and the handler\<close>

lemma trip_loop_sum:
  "trip_loop legs (t, ds) = Inr (t', ds') \<Longrightarrow>
     t' = foldl fadd t (map leg_emission legs) \<and>
     map Emission_kg ds' = map Emission_kg ds @ map leg_emission legs"
proof (induction legs arbitrary: t ds)
  case Nil
  then show ?case by simp
next
  case (Cons leg legs)
  obtain fc tc m p d where leg: "leg = (fc, tc, m, p, d)" by (cases leg) auto
  from Cons.prems obtain f e where
    f: "select_emission_factor d m = Inr f" and
    e: "trip_emission d f p = Inr e" and
    rest: "trip_loop legs (fadd t e, ds @ [\<lparr>From_city = fc, To_city = tc, Mode = m,
                              Distance_km = d, Emission_kg = e\<rparr>]) = Inr (t', ds')"
    by (auto simp: leg split: sum.splits)
  have "e = leg_emission leg" unfolding leg using f e by (rule leg_emission_eq)
  with Cons.IH [OF rest] show ?case by simp
qed

lemma calculate_emissions_None:
  "snd (calculate_emissions st sub) = None \<Longrightarrow>
     \<exists>t ds a m. trip_loop (trip_data sub) (Finite 0, []) = Inr (t, ds) \<and>
       stay_loop (stay_data sub) (Finite 0) = Inr a \<and>
       meal_loop (meal_data sub) (Finite 0) = Inr m \<and>
       fst (calculate_emissions st sub) = store_results st sub t ds a m"
  by (auto simp: calculate_emissions_def split: sum.splits prod.splits)

lemma calculate_emissions_Some:
  "snd (calculate_emissions st sub) \<noteq> None \<Longrightarrow> fst (calculate_emissions st sub) = st"
  by (auto simp: calculate_emissions_def split: sum.splits prod.splits)

lemma outcome_independent:
  "snd (calculate_emissions st sub) = snd (calculate_emissions st' sub)"
  by (auto simp: calculate_emissions_def split: sum.splits prod.splits)

lemma store_results_fields:
  "emissions_data (store_results st sub t ds a m) =
     emissions_data st @ [make_entry sub t a m (fadd (fadd t a) m)]"
  "total_emissions (store_results st sub t ds a m) = fadd (total_emissions st) (fadd (fadd t a) m)"
  "transport_emissions (store_results st sub t ds a m) = t"
  "accommodation_emissions (store_results st sub t ds a m) = a"
  "meal_emissions (store_results st sub t ds a m) = m"
  "trip_details (store_results st sub t ds a m) = ds"
  by (simp_all add: store_results_def Let_def)

lemma make_entry_fields:
  "Transport_Emissions (make_entry sub t a m tot) = float_round t 2"
  "Accommodation_Emissions (make_entry sub t a m tot) = float_round a 2"
  "Meal_Emissions (make_entry sub t a m tot) = float_round m 2"
  "Total_Emissions (make_entry sub t a m tot) = float_round tot 2"
  by (simp_all add: make_entry_def)

lemma succeeds_iff: "succeeds sub \<longleftrightarrow> snd (calculate_emissions st sub) = None"
  unfolding succeeds_def by (simp add: outcome_independent [of initial_state sub st])

lemma successful_step:
  assumes "snd (calculate_emissions st sub) = None"
  shows "emissions_data (fst (calculate_emissions st sub)) = emissions_data st @ [recorded_entry sub]"
    and "total_emissions (fst (calculate_emissions st sub)) =
           fadd (total_emissions st) (unrounded_total sub)"
    and "Total_Emissions (recorded_entry sub) = float_round (unrounded_total sub) 2"
    and "fadd (fadd (transport_emissions (fst (calculate_emissions st sub)))
               (accommodation_emissions (fst (calculate_emissions st sub))))
           (meal_emissions (fst (calculate_emissions st sub))) = unrounded_total sub"
proof -
  from calculate_emissions_None [OF assms] obtain t ds a m where
    l: "trip_loop (trip_data sub) (Finite 0, []) = Inr (t, ds)"
       "stay_loop (stay_data sub) (Finite 0) = Inr a"
       "meal_loop (meal_data sub) (Finite 0) = Inr m" and
    r: "fst (calculate_emissions st sub) = store_results st sub t ds a m"
    by blast
  have r0: "fst (calculate_emissions initial_state sub) = store_results initial_state sub t ds a m"
    by (simp add: calculate_emissions_def l)
  have e: "recorded_entry sub = make_entry sub t a m (fadd (fadd t a) m)"
    by (simp add: recorded_entry_def r0 store_results_fields)
  have u: "unrounded_total sub = fadd (fadd t a) m"
    by (simp add: unrounded_total_def r0 store_results_fields)
  show "emissions_data (fst (calculate_emissions st sub)) = emissions_data st @ [recorded_entry sub]"
    by (simp add: r e store_results_fields)
  show "total_emissions (fst (calculate_emissions st sub)) =
           fadd (total_emissions st) (unrounded_total sub)"
    by (simp add: r u store_results_fields)
  show "Total_Emissions (recorded_entry sub) = float_round (unrounded_total sub) 2"
    by (simp add: e u make_entry_fields)
  show "fadd (fadd (transport_emissions (fst (calculate_emissions st sub)))
               (accommodation_emissions (fst (calculate_emissions st sub))))
           (meal_emissions (fst (calculate_emissions st sub))) = unrounded_total sub"
    by (simp add: r u store_results_fields)
qed

lemma submit_all_history:
  "emissions_data (submit_all st subs) =
     emissions_data st @ map recorded_entry (filter succeeds subs)"
proof (induction subs arbitrary: st)
  case Nil
  then show ?case by simp
next
  case (Cons sub subs)
  show ?case
  proof (cases "succeeds sub")
    case True
    then have "snd (calculate_emissions st sub) = None" by (simp add: succeeds_iff [of sub st])
    from successful_step(1) [OF this] True show ?thesis by (simp add: Cons.IH)
  next
    case False
    then have "snd (calculate_emissions st sub) \<noteq> None" by (simp add: succeeds_iff [of sub st])
    then have "fst (calculate_emissions st sub) = st" by (rule calculate_emissions_Some)
    with False show ?thesis by (simp add: Cons.IH)
  qed
qed

lemma submit_all_total:
  "total_emissions (submit_all st subs) =
     foldl fadd (total_emissions st) (map unrounded_total (filter succeeds subs))"
proof (induction subs arbitrary: st)
  case Nil
  then show ?case by simp
next
  case (Cons sub subs)
  show ?case
  proof (cases "succeeds sub")
    case True
    then have "snd (calculate_emissions st sub) = None" by (simp add: succeeds_iff [of sub st])
    from successful_step(2) [OF this] True show ?thesis by (simp add: Cons.IH)
  next
    case False
    then have "snd (calculate_emissions st sub) \<noteq> None" by (simp add: succeeds_iff [of sub st])
    then have "fst (calculate_emissions st sub) = st" by (rule calculate_emissions_Some)
    with False show ?thesis by (simp add: Cons.IH)
  qed
qed


subsection \<open>The handler on the three submissions\<close>

lemma example_trip_loop:
  "trip_loop (trip_data example_submission) (Finite 0, []) =
     Inr (double 72.33999999999999,
       [\<lparr>From_city = ''VELLORE'', To_city = ''CHENNAI'', Mode = ''FLIGHT - FIRST'',
          Distance_km = 124.7, Emission_kg = double 56.12\<rparr>,
        \<lparr>From_city = ''VELLORE'', To_city = ''CHENNAI'', Mode = ''CAR - HYBRID'',
          Distance_km = 124.7, Emission_kg = double 9.98\<rparr>,
        \<lparr>From_city = ''VELLORE'', To_city = ''CHENNAI'', Mode = ''TRAIN - HIGH SPEED'',
          Distance_km = 124.7, Emission_kg = double 6.24\<rparr>])"
  by (simp add: example_submission_def factor_eval trip_emission_def float_eval)

lemma example_stay_loop: "stay_loop (stay_data example_submission) (Finite 0) = Inr (Finite 45)"
  by (simp add: example_submission_def dict_get_def HOTEL_EMISSION_FACTORS_def float_eval)

lemma example_meal_loop: "meal_loop (meal_data example_submission) (Finite 0) = Inr (Finite 16.5)"
  by (simp add: example_submission_def daily_meal_emission_def add_meal_def times_nights_def
        dict_get_def MEAL_EMISSION_FACTORS_def float_eval)

lemma example_total:
  "fadd (fadd (double 72.33999999999999) (Finite 45)) (Finite 16.5) = double 133.83999999999997"
  by (simp add: float_eval)

lemma example_rounded:
  "float_round (double 72.33999999999999) 2 = double 72.34"
  "float_round (Finite 45) 2 = Finite 45"
  "float_round (Finite 16.5) 2 = Finite 16.5"
  "float_round (double 133.83999999999997) 2 = double 133.84"
  by (simp_all add: float_eval)

lemma failing_meal_loop: "meal_loop (meal_data failing_submission) (Finite 0) = Inl KeyError"
  by (simp add: failing_submission_def daily_meal_emission_def add_meal_def dict_get_def
        MEAL_EMISSION_FACTORS_def float_eval)

lemma failing_other_loops:
  "trip_data failing_submission = trip_data example_submission"
  "stay_data failing_submission = stay_data example_submission"
  by (simp_all add: failing_submission_def)

lemma long_stay_trip_loop:
  "trip_loop (trip_data long_stay_submission) (Finite 0, []) =
     Inr (double 872.2500000000001,
       [\<lparr>From_city = ''BENGALURU'', To_city = ''CAIRO'', Mode = ''CAR - DIESEL'',
          Distance_km = 5115.93, Emission_kg = double 716.23\<rparr>,
        \<lparr>From_city = ''CAIRO'', To_city = ''DUBAI'', Mode = ''BUS - STANDARD'',
          Distance_km = 2423.28, Emission_kg = double 96.93\<rparr>,
        \<lparr>From_city = ''HYDERABAD'', To_city = ''KOLKATA'', Mode = ''TRAIN - HIGH SPEED'',
          Distance_km = 1181.88, Emission_kg = double 59.09\<rparr>])"
  by (simp add: long_stay_submission_def factor_eval trip_emission_def float_eval)

lemma long_stay_stay_loop:
  "stay_loop (stay_data long_stay_submission) (Finite 0) = Inr (Finite 3000000000000000)"
  by (simp add: long_stay_submission_def dict_get_def HOTEL_EMISSION_FACTORS_def float_eval)

lemma long_stay_meal_loop:
  "meal_loop (meal_data long_stay_submission) (Finite 0) = Inr (Finite 0)"
  by (simp add: long_stay_submission_def daily_meal_emission_def add_meal_def times_nights_def
        float_eval)

lemma long_stay_total:
  "fadd (fadd (double 872.2500000000001) (Finite 3000000000000000)) (Finite 0) =
     Finite 3000000000000872.5"
  by (simp add: float_eval)

lemma long_stay_rounded:
  "float_round (double 872.2500000000001) 2 = Finite 872.25"
  "float_round (Finite 3000000000000000) 2 = Finite 3000000000000000"
  "float_round (Finite 0) 2 = Finite 0"
  "float_round (Finite 3000000000000872.5) 2 = Finite 3000000000000872.5"
  "float_round (fadd (fadd (Finite 872.25) (Finite 3000000000000000)) (Finite 0)) 2 =
     Finite 3000000000000872"
  by (simp_all add: float_eval)

lemma example_succeeds: "snd (calculate_emissions st example_submission) = None"
  by (simp add: calculate_emissions_def example_trip_loop example_stay_loop example_meal_loop)

lemma failing_fails: "snd (calculate_emissions st failing_submission) = Some KeyError"
  by (simp add: calculate_emissions_def failing_other_loops example_trip_loop example_stay_loop
        failing_meal_loop)

lemma long_stay_succeeds: "snd (calculate_emissions st long_stay_submission) = None"
  by (simp add: calculate_emissions_def long_stay_trip_loop long_stay_stay_loop long_stay_meal_loop)

lemma example_flags:
  "succeeds example_submission" "\<not> succeeds failing_submission" "succeeds long_stay_submission"
  by (simp_all add: succeeds_def example_succeeds failing_fails long_stay_succeeds)

lemma example_result:
  "fst (calculate_emissions st example_submission) =
     store_results st example_submission (double 72.33999999999999)
       [\<lparr>From_city = ''VELLORE'', To_city = ''CHENNAI'', Mode = ''FLIGHT - FIRST'',
          Distance_km = 124.7, Emission_kg = double 56.12\<rparr>,
        \<lparr>From_city = ''VELLORE'', To_city = ''CHENNAI'', Mode = ''CAR - HYBRID'',
          Distance_km = 124.7, Emission_kg = double 9.98\<rparr>,
        \<lparr>From_city = ''VELLORE'', To_city = ''CHENNAI'', Mode = ''TRAIN - HIGH SPEED'',
          Distance_km = 124.7, Emission_kg = double 6.24\<rparr>]
       (Finite 45) (Finite 16.5)"
  by (simp only: calculate_emissions_def example_trip_loop example_stay_loop example_meal_loop
        sum.case prod.case fst_conv)

lemma long_stay_result:
  "fst (calculate_emissions st long_stay_submission) =
     store_results st long_stay_submission (double 872.2500000000001)
       [\<lparr>From_city = ''BENGALURU'', To_city = ''CAIRO'', Mode = ''CAR - DIESEL'',
          Distance_km = 5115.93, Emission_kg = double 716.23\<rparr>,
        \<lparr>From_city = ''CAIRO'', To_city = ''DUBAI'', Mode = ''BUS - STANDARD'',
          Distance_km = 2423.28, Emission_kg = double 96.93\<rparr>,
        \<lparr>From_city = ''HYDERABAD'', To_city = ''KOLKATA'', Mode = ''TRAIN - HIGH SPEED'',
          Distance_km = 1181.88, Emission_kg = double 59.09\<rparr>]
       (Finite 3000000000000000) (Finite 0)"
  by (simp only: calculate_emissions_def long_stay_trip_loop long_stay_stay_loop
        long_stay_meal_loop sum.case prod.case fst_conv)

lemma example_unrounded: "unrounded_total example_submission = double 133.83999999999997"
  by (simp only: unrounded_total_def Let_def example_result store_results_fields example_total)

lemma example_recorded:
  "recorded_entry example_submission =
     make_entry example_submission (double 72.33999999999999) (Finite 45) (Finite 16.5)
       (double 133.83999999999997)"
  by (simp only: recorded_entry_def example_result store_results_fields last_snoc example_total)

lemma example_recorded_fields:
  "Transport_Emissions (recorded_entry example_submission) = double 72.34"
  "Accommodation_Emissions (recorded_entry example_submission) = Finite 45"
  "Meal_Emissions (recorded_entry example_submission) = Finite 16.5"
  "Total_Emissions (recorded_entry example_submission) = double 133.84"
  by (simp_all only: example_recorded make_entry_fields example_rounded)

lemma long_stay_unrounded: "unrounded_total long_stay_submission = Finite 3000000000000872.5"
  by (simp only: unrounded_total_def Let_def long_stay_result store_results_fields long_stay_total)

lemma long_stay_recorded:
  "Transport_Emissions (recorded_entry long_stay_submission) = Finite 872.25"
  "Accommodation_Emissions (recorded_entry long_stay_submission) = Finite 3000000000000000"
  "Meal_Emissions (recorded_entry long_stay_submission) = Finite 0"
  "Total_Emissions (recorded_entry long_stay_submission) = Finite 3000000000000872.5"
  by (simp_all only: recorded_entry_def long_stay_result store_results_fields last_snoc
        long_stay_total make_entry_fields long_stay_rounded)

lemma example_fields:
  "employee_id example_submission = ''E1''" "employee_name example_submission = ''A''"
  "department example_submission = ''IT''" "travel_purpose example_submission = ''Training''"
  "start_date example_submission = ''2025-01-01''" "end_date example_submission = ''2025-01-08''"
  "timestamp_now example_submission = ''2025-01-01 09:00:00''"
  by (simp_all add: example_submission_def)


lemma two_presses:
  "fadd (Finite 0) (double 133.83999999999997) = double 133.83999999999997"
  "fadd (double 133.83999999999997) (double 133.83999999999997) = double 267.67999999999995"
  "fadd (Finite 0) (Finite 3000000000000872.5) = Finite 3000000000000872.5"
  "fadd (Finite 3000000000000872.5) (double 133.83999999999997) = Finite 3000000000001006.5"
  by (simp_all add: float_eval)

lemma example_sum_then_round: "sum_then_round (trip_data example_submission) = double 72.33"
  by (simp add: sum_then_round_def example_submission_def factor_eval float_eval)


subsection \<open>One entry\<close>







text \<open>
  C6. The transport subtotal of a list of legs is the sum, from 0 and in the order of
  the list, of the emissions of the legs, each rounded to 2 decimals before it is
  added; the handler stores this sum in the session and records its rounding to 2
  decimals in the entry.
\<close>

theorem transport_subtotal_sums_rounded_legs:
  "(trip_loop legs (Finite 0, []) = Inr (t, ds) \<longrightarrow>
      t = round_then_sum legs \<and> map Emission_kg ds = map leg_emission legs \<and>
      t = foldl fadd (Finite 0) (map Emission_kg ds)) \<and>
   (snd (calculate_emissions st sub) = None \<longrightarrow>
      transport_emissions (fst (calculate_emissions st sub)) = round_then_sum (trip_data sub) \<and>
      Transport_Emissions (last (emissions_data (fst (calculate_emissions st sub)))) =
        float_round (round_then_sum (trip_data sub)) 2)"
proof (intro conjI impI)
  assume l: "trip_loop legs (Finite 0, []) = Inr (t, ds)"
  show t: "t = round_then_sum legs" using trip_loop_sum [OF l] by (simp add: round_then_sum_def)
  show d: "map Emission_kg ds = map leg_emission legs" using trip_loop_sum [OF l] by simp
  show "t = foldl fadd (Finite 0) (map Emission_kg ds)" unfolding d t by (simp add: round_then_sum_def)
next
  assume a: "snd (calculate_emissions st sub) = None"
  from calculate_emissions_None [OF a] obtain t ds a m where
    l: "trip_loop (trip_data sub) (Finite 0, []) = Inr (t, ds)" and
    r: "fst (calculate_emissions st sub) = store_results st sub t ds a m"
    by blast
  have t: "t = round_then_sum (trip_data sub)"
    using trip_loop_sum [OF l] by (simp add: round_then_sum_def)
  show "transport_emissions (fst (calculate_emissions st sub)) = round_then_sum (trip_data sub)"
    by (simp add: r t store_results_fields)
  show "Transport_Emissions (last (emissions_data (fst (calculate_emissions st sub)))) =
        float_round (round_then_sum (trip_data sub)) 2"
    by (simp add: r t store_results_fields make_entry_fields)
qed


text \<open>
  On the example the legs are 56.12, 9.98 and 6.24 and their sum is
  72.33999999999999, recorded as 72.34; rounding the sum of the unrounded legs would
  give 72.33.
\<close>

theorem transport_subtotal_sums_rounded_legs_witness:
  "map leg_emission (trip_data example_submission) = [double 56.12, double 9.98, double 6.24] \<and>
   round_then_sum (trip_data example_submission) = double 72.33999999999999 \<and>
   transport_emissions (fst (calculate_emissions initial_state example_submission)) =
     double 72.33999999999999 \<and>
   Transport_Emissions (last (emissions_data (fst (calculate_emissions initial_state
     example_submission)))) = double 72.34 \<and>
   sum_then_round (trip_data example_submission) = double 72.33"
proof -
  note th = transport_subtotal_sums_rounded_legs
    [of "trip_data example_submission" "double 72.33999999999999" _ initial_state
      example_submission]
  from th example_trip_loop
  have "double 72.33999999999999 = round_then_sum (trip_data example_submission)"
    and "map Emission_kg
       [\<lparr>From_city = ''VELLORE'', To_city = ''CHENNAI'', Mode = ''FLIGHT - FIRST'',
          Distance_km = 124.7, Emission_kg = double 56.12\<rparr>,
        \<lparr>From_city = ''VELLORE'', To_city = ''CHENNAI'', Mode = ''CAR - HYBRID'',
          Distance_km = 124.7, Emission_kg = double 9.98\<rparr>,
        \<lparr>From_city = ''VELLORE'', To_city = ''CHENNAI'', Mode = ''TRAIN - HIGH SPEED'',
          Distance_km = 124.7, Emission_kg = double 6.24\<rparr>] =
      map leg_emission (trip_data example_submission)"
    by blast+
  then have 2: "round_then_sum (trip_data example_submission) = double 72.33999999999999"
    and 1: "map leg_emission (trip_data example_submission) =
      [double 56.12, double 9.98, double 6.24]"
    by (simp_all only: list.map trip_detail.simps)
  from th example_succeeds [of initial_state]
  have "transport_emissions (fst (calculate_emissions initial_state example_submission)) =
      round_then_sum (trip_data example_submission)"
    and "Transport_Emissions (last (emissions_data (fst (calculate_emissions initial_state
     example_submission)))) = float_round (round_then_sum (trip_data example_submission)) 2"
    by blast+
  then have 3: "transport_emissions (fst (calculate_emissions initial_state example_submission)) =
     double 72.33999999999999"
    and 4: "Transport_Emissions (last (emissions_data (fst (calculate_emissions initial_state
     example_submission)))) = double 72.34"
    by (simp_all only: 2 example_rounded)
  from 1 2 3 4 example_sum_then_round show ?thesis by (intro conjI)
qed


subsection \<open>The ledger over several submissions\<close>

lemma take_filter:
  "k' \<le> length (filter P xs) \<Longrightarrow> \<exists>k\<le>length xs. take k' (filter P xs) = filter P (take k xs)"
proof (induction xs arbitrary: k')
  case Nil
  then show ?case by simp
next
  case (Cons x xs)
  show ?case
  proof (cases k')
    case 0
    then show ?thesis by (intro exI [of _ 0]) simp
  next
    case (Suc j)
    show ?thesis
    proof (cases "P x")
      case True
      with Cons.prems Suc have "j \<le> length (filter P xs)" by simp
      from Cons.IH [OF this] obtain k where
        "k \<le> length xs" "take j (filter P xs) = filter P (take k xs)" by blast
      with True Suc show ?thesis by (intro exI [of _ "Suc k"]) simp
    next
      case False
      with Cons.prems have "k' \<le> length (filter P xs)" by simp
      from Cons.IH [OF this] obtain k where
        "k \<le> length xs" "take k' (filter P xs) = filter P (take k xs)" by blast
      with False show ?thesis by (intro exI [of _ "Suc k"]) simp
    qed
  qed
qed

lemma fold_tolerance:
  assumes B: "1 \<le> B" "B \<le> 2 ^ 1000"
    and pre: "\<forall>k\<le>length us. \<exists>s. foldl fadd (Finite 0) (take k us) = Finite s \<and> \<bar>s\<bar> \<le> B"
  shows "\<bar>fval (foldl fadd (Finite 0) us) - (\<Sum>u\<leftarrow>us. fval (float_round u 2))\<bar>
           \<le> real (length us) * (1 / 200 + B / 2 ^ 49)"
  using pre
proof (induction us rule: rev_induct)
  case Nil
  then show ?case by simp
next
  case (snoc u us)
  have "\<forall>k\<le>length us. \<exists>s. foldl fadd (Finite 0) (take k us) = Finite s \<and> \<bar>s\<bar> \<le> B"
  proof (intro allI impI)
    fix k assume k: "k \<le> length us"
    then have "k \<le> length (us @ [u])" by simp
    with snoc.prems obtain s where
      "foldl fadd (Finite 0) (take k (us @ [u])) = Finite s \<and> \<bar>s\<bar> \<le> B" by blast
    with k show "\<exists>s. foldl fadd (Finite 0) (take k us) = Finite s \<and> \<bar>s\<bar> \<le> B" by auto
  qed
  note IH = snoc.IH [OF this]
  from snoc.prems [rule_format, of "length us"] obtain s where
    s: "foldl fadd (Finite 0) us = Finite s" "\<bar>s\<bar> \<le> B" by auto
  from snoc.prems [rule_format, of "length (us @ [u])"] obtain s' where
    s': "fadd (Finite s) u = Finite s'" "\<bar>s'\<bar> \<le> B" by (auto simp: s)
  from fadd_Finite [OF s'(1)] obtain v where
    v: "u = Finite v" "rnd (s + v) = Finite s'" by auto
  define t :: real where "t = 1 / 2 ^ 1075"
  define u53 :: real where "u53 = B / 2 ^ 53"
  define x where "x = \<bar>s + v\<bar>"
  define y where "y = \<bar>s' - (s + v)\<bar>"
  define d1 where "d1 = x / 2 ^ 53"
  have e1: "y \<le> d1 + t"
    unfolding y_def d1_def x_def t_def by (rule rnd_error [OF v(2)])
  have x0: "0 \<le> x" unfolding x_def by simp
  then have h1: "d1 \<le> x / 2" unfolding d1_def by (simp add: field_simps)
  have tiny: "t \<le> 1 / 4" unfolding t_def by simp
  have "x \<le> \<bar>s'\<bar> + y"
    unfolding x_def y_def using abs_triangle_ineq4 [of s' "s' - (s + v)"] by simp
  with e1 h1 tiny s'(2) B(1) have sv: "x \<le> 3 * B" by linarith
  have "\<bar>v\<bar> \<le> x + \<bar>s\<bar>" unfolding x_def using abs_triangle_ineq4 [of "s + v" s] by simp
  with sv s(2) have vb: "\<bar>v\<bar> \<le> 4 * B" by linarith
  define c where "c = py_round v 2"
  define cv where "cv = \<bar>c - v\<bar>"
  have cv: "cv \<le> 1 / 200" unfolding cv_def c_def by (rule py_round_bound)
  define ca where "ca = \<bar>c\<bar>"
  have "ca \<le> cv + \<bar>v\<bar>" unfolding ca_def cv_def using abs_triangle_ineq [of "c - v" v] by simp
  with cv vb B(1) have cb: "ca \<le> 5 * B" by linarith
  have "5 * B \<le> 5 * 2 ^ 1000" using B(2) by simp
  also have "\<dots> \<le> (2::real) ^ 1022" by simp
  finally have "\<bar>c\<bar> \<le> 2 ^ 1022" using cb unfolding ca_def by linarith
  from rnd_finite [OF this] obtain r where r: "rnd c = Finite r" by blast
  define d2 where "d2 = ca / 2 ^ 53"
  define z where "z = \<bar>r - c\<bar>"
  have e2: "z \<le> d2 + t" unfolding z_def d2_def ca_def t_def by (rule rnd_error [OF r])
  have fr: "float_round u 2 = Finite r" by (simp add: v(1) float_round_def c_def [symmetric] r)
  have b1: "d1 \<le> 3 * u53" unfolding d1_def u53_def using sv by (simp add: divide_right_mono)
  have b2: "d2 \<le> 5 * u53" unfolding d2_def u53_def using cb by (simp add: divide_right_mono)
  have "t \<le> 1 / 2 ^ 53" unfolding t_def by simp
  moreover have "1 / 2 ^ 53 \<le> u53" unfolding u53_def using B(1) by (simp add: divide_right_mono)
  ultimately have tiny3: "t \<le> u53" by linarith
  have u49: "16 * u53 = B / 2 ^ 49" unfolding u53_def by simp
  define w where "w = \<bar>v - r\<bar>"
  have "w \<le> cv + z" unfolding w_def cv_def z_def using abs_triangle_ineq [of "v - c" "c - r"]
    by (simp add: abs_minus_commute)
  moreover have "0 \<le> u53" unfolding u53_def using B(1) by simp
  ultimately have "y + w \<le> 1 / 200 + 16 * u53" using e1 e2 cv b1 b2 tiny3 by linarith
  then have step: "\<bar>s' - (s + v)\<bar> + \<bar>v - r\<bar> \<le> 1 / 200 + B / 2 ^ 49"
    unfolding u49 y_def w_def .
  define tol where "tol = 1 / 200 + B / 2 ^ 49"
  define acc where "acc = (\<Sum>u\<leftarrow>us. fval (float_round u 2))"
  have eq: "fval (foldl fadd (Finite 0) (us @ [u])) - (\<Sum>u\<leftarrow>us @ [u]. fval (float_round u 2)) =
      (s' - (s + v)) + (s - acc) + (v - r)"
    by (simp add: s s' fr acc_def)
  have ih: "\<bar>s - acc\<bar> \<le> real (length us) * tol"
    using IH by (simp add: s acc_def tol_def)
  have st: "\<bar>s' - (s + v)\<bar> + \<bar>v - r\<bar> \<le> tol" using step unfolding tol_def .
  have "\<bar>(s' - (s + v)) + (s - acc) + (v - r)\<bar> \<le> \<bar>s' - (s + v)\<bar> + \<bar>s - acc\<bar> + \<bar>v - r\<bar>"
    by (rule abs_triangle_ineq [THEN order_trans]) (simp add: abs_triangle_ineq)
  also have "\<dots> \<le> real (length us) * tol + tol" using ih st by simp
  also have "\<dots> = real (length (us @ [u])) * tol"
    by (simp add: algebra_simps)
  finally show ?case unfolding eq tol_def .
qed


text \<open>
  C5. Starting from the empty session, after any run of submissions of which N
  complete, the history holds exactly N entries, the entries of the completed
  submissions in the order they were submitted. The running total equals the sum of
  the recorded totals up to rounding: when the running total stayed finite and within
  \<open>B\<close> in absolute value throughout, with \<open>1 \<le> B \<le> 2^1000\<close>, the two differ by at
  most \<open>1/200 + B / 2^49\<close> per entry, half a hundredth for the rounding of the
  recorded total and the rest for the rounding of the float operations.
\<close>

theorem ledger_history_and_running_total:
  "length (emissions_data (submit_all initial_state subs)) = length (filter succeeds subs) \<and>
   emissions_data (submit_all initial_state subs) = map recorded_entry (filter succeeds subs) \<and>
   (1 \<le> B \<and> B \<le> 2 ^ 1000 \<and>
    (\<forall>k\<le>length subs. \<exists>s. total_emissions (submit_all initial_state (take k subs)) = Finite s \<and>
        \<bar>s\<bar> \<le> B) \<longrightarrow>
    \<bar>fval (total_emissions (submit_all initial_state subs)) -
     (\<Sum>e\<leftarrow>emissions_data (submit_all initial_state subs). fval (Total_Emissions e))\<bar>
      \<le> real (length (emissions_data (submit_all initial_state subs))) * (1 / 200 + B / 2 ^ 49))"
proof (intro conjI impI)
  show h: "emissions_data (submit_all initial_state subs) = map recorded_entry (filter succeeds subs)"
    by (simp add: submit_all_history initial_state_def)
  then show "length (emissions_data (submit_all initial_state subs)) = length (filter succeeds subs)"
    by simp
  assume a: "1 \<le> B \<and> B \<le> 2 ^ 1000 \<and>
    (\<forall>k\<le>length subs. \<exists>s. total_emissions (submit_all initial_state (take k subs)) = Finite s \<and>
        \<bar>s\<bar> \<le> B)"
  define us where "us = map unrounded_total (filter succeeds subs)"
  have tot: "total_emissions (submit_all initial_state xs) =
      foldl fadd (Finite 0) (map unrounded_total (filter succeeds xs))" for xs
    by (simp add: submit_all_total initial_state_def)
  have pre: "\<forall>k\<le>length us. \<exists>s. foldl fadd (Finite 0) (take k us) = Finite s \<and> \<bar>s\<bar> \<le> B"
  proof (intro allI impI)
    fix k' assume "k' \<le> length us"
    then have "k' \<le> length (filter succeeds subs)" by (simp add: us_def)
    from take_filter [OF this] obtain k where
      k: "k \<le> length subs" "take k' (filter succeeds subs) = filter succeeds (take k subs)"
      by blast
    have "take k' us = map unrounded_total (filter succeeds (take k subs))"
      by (simp add: us_def take_map k(2))
    then have "foldl fadd (Finite 0) (take k' us) = total_emissions (submit_all initial_state (take k subs))"
      by (simp add: tot)
    with a k(1) show "\<exists>s. foldl fadd (Finite 0) (take k' us) = Finite s \<and> \<bar>s\<bar> \<le> B" by simp
  qed
  have "map (\<lambda>e. fval (Total_Emissions e)) (map recorded_entry (filter succeeds subs)) =
      map (\<lambda>u. fval (float_round u 2)) us"
    unfolding us_def map_map
  proof (rule map_cong [OF refl])
    fix sub assume "sub \<in> set (filter succeeds subs)"
    then have "snd (calculate_emissions initial_state sub) = None" by (simp add: succeeds_def)
    from successful_step(3) [OF this]
    show "((\<lambda>e. fval (Total_Emissions e)) \<circ> recorded_entry) sub =
        ((\<lambda>u. fval (float_round u 2)) \<circ> unrounded_total) sub" by simp
  qed
  then have sum: "(\<Sum>e\<leftarrow>emissions_data (submit_all initial_state subs). fval (Total_Emissions e)) =
      (\<Sum>u\<leftarrow>us. fval (float_round u 2))"
    by (simp add: h)
  have len: "length (emissions_data (submit_all initial_state subs)) = length us"
    by (simp add: h us_def)
  have "total_emissions (submit_all initial_state subs) = foldl fadd (Finite 0) us"
    by (simp add: tot us_def)
  with fold_tolerance [of B us] a pre sum len
  show "\<bar>fval (total_emissions (submit_all initial_state subs)) -
     (\<Sum>e\<leftarrow>emissions_data (submit_all initial_state subs). fval (Total_Emissions e))\<bar>
      \<le> real (length (emissions_data (submit_all initial_state subs))) * (1 / 200 + B / 2 ^ 49)"
    by simp
qed


text \<open>
  The long stay, a submission that raises, and the example: two entries, and a running
  total 0.16 away from the sum of the two recorded totals.
\<close>

theorem ledger_history_and_running_total_witness:
  "length (emissions_data (submit_all initial_state
      [long_stay_submission, failing_submission, example_submission])) = 2 \<and>
   emissions_data (submit_all initial_state
      [long_stay_submission, failing_submission, example_submission]) =
     [recorded_entry long_stay_submission, recorded_entry example_submission] \<and>
   total_emissions (submit_all initial_state
      [long_stay_submission, failing_submission, example_submission]) =
     Finite 3000000000001006.5 \<and>
   Total_Emissions (recorded_entry long_stay_submission) = Finite 3000000000000872.5 \<and>
   Total_Emissions (recorded_entry example_submission) = double 133.84 \<and>
   \<bar>fval (total_emissions (submit_all initial_state
      [long_stay_submission, failing_submission, example_submission])) -
    (\<Sum>e\<leftarrow>emissions_data (submit_all initial_state
      [long_stay_submission, failing_submission, example_submission]).
        fval (Total_Emissions e))\<bar> \<le> 2 * (1 / 200 + 2 ^ 52 / 2 ^ 49)"
proof -
  let ?subs = "[long_stay_submission, failing_submission, example_submission]"
  note th = ledger_history_and_running_total [of ?subs "2 ^ 52"]
  have fl: "filter succeeds ?subs = [long_stay_submission, example_submission]"
    by (simp only: filter.simps example_flags if_True if_False)
  have tot: "total_emissions (submit_all initial_state xs) =
      foldl fadd (Finite 0) (map unrounded_total (filter succeeds xs))" for xs
    by (simp add: submit_all_total initial_state_def)
  have t0: "total_emissions (submit_all initial_state (take 0 ?subs)) = Finite 0"
    by (simp add: initial_state_def)
  have t1: "total_emissions (submit_all initial_state (take 1 ?subs)) = Finite 3000000000000872.5"
    unfolding tot
    by (simp only: take_Suc_conv_app_nth take_0 One_nat_def take_Suc_Cons filter.simps
        example_flags if_True if_False list.map foldl.simps long_stay_unrounded two_presses)
  have t2: "total_emissions (submit_all initial_state (take 2 ?subs)) = Finite 3000000000000872.5"
    unfolding tot
    by (simp only: numeral_2_eq_2 take_0 take_Suc_Cons filter.simps
        example_flags if_True if_False list.map foldl.simps long_stay_unrounded two_presses)
  have t3: "total_emissions (submit_all initial_state (take 3 ?subs)) = Finite 3000000000001006.5"
    unfolding tot
    by (simp only: numeral_3_eq_3 take_0 take_Suc_Cons filter.simps
        example_flags if_True if_False list.map foldl.simps long_stay_unrounded
        example_unrounded two_presses)
  have pre: "\<forall>k\<le>length ?subs. \<exists>s. total_emissions (submit_all initial_state (take k ?subs)) =
      Finite s \<and> \<bar>s\<bar> \<le> 2 ^ 52"
  proof (intro allI impI)
    fix k assume "k \<le> length ?subs"
    then consider "k = 0" | "k = 1" | "k = 2" | "k = 3" by fastforce
    then show "\<exists>s. total_emissions (submit_all initial_state (take k ?subs)) =
      Finite s \<and> \<bar>s\<bar> \<le> 2 ^ 52"
    proof cases
      case 1 then show ?thesis unfolding 1 t0 by (intro exI [of _ 0]) simp
    next
      case 2 then show ?thesis unfolding 2 t1 by (intro exI [of _ "3000000000000872.5"]) simp
    next
      case 3 then show ?thesis unfolding 3 t2 by (intro exI [of _ "3000000000000872.5"]) simp
    next
      case 4 then show ?thesis unfolding 4 t3 by (intro exI [of _ "3000000000001006.5"]) simp
    qed
  qed
  have B: "(1::real) \<le> 2 ^ 52" "(2::real) ^ 52 \<le> 2 ^ 1000" by simp_all
  from th have 1: "length (emissions_data (submit_all initial_state ?subs)) = 2"
    unfolding fl by simp
  from th have 2: "emissions_data (submit_all initial_state ?subs) =
     [recorded_entry long_stay_submission, recorded_entry example_submission]"
    unfolding fl by simp
  from th B pre
  have "\<bar>fval (total_emissions (submit_all initial_state ?subs)) -
     (\<Sum>e\<leftarrow>emissions_data (submit_all initial_state ?subs). fval (Total_Emissions e))\<bar>
      \<le> real (length (emissions_data (submit_all initial_state ?subs))) * (1 / 200 + 2 ^ 52 / 2 ^ 49)"
    by blast
  then have 3: "\<bar>fval (total_emissions (submit_all initial_state ?subs)) -
     (\<Sum>e\<leftarrow>emissions_data (submit_all initial_state ?subs). fval (Total_Emissions e))\<bar>
      \<le> 2 * (1 / 200 + 2 ^ 52 / 2 ^ 49)"
    unfolding 1 by simp
  have 4: "total_emissions (submit_all initial_state ?subs) = Finite 3000000000001006.5"
    using t3 by simp
  from 1 2 3 4 long_stay_recorded(4) example_recorded_fields(4) show ?thesis by (intro conjI)
qed


text \<open>
  C9. A submission either raises and leaves the session exactly as it was, or completes,
  and then the session is the old one with one entry appended, which carries the six
  identity and date fields and the timestamp of the submission, the three rounded
  subtotals and the rounded total, with the running total increased and the most
  recent subtotals and legs replaced.
\<close>

theorem submission_atomic:
  "(snd (calculate_emissions st sub) \<noteq> None \<longrightarrow> fst (calculate_emissions st sub) = st) \<and>
   (snd (calculate_emissions st sub) = None \<longrightarrow>
      (\<exists>t ds a m.
         trip_loop (trip_data sub) (Finite 0, []) = Inr (t, ds) \<and>
         stay_loop (stay_data sub) (Finite 0) = Inr a \<and>
         meal_loop (meal_data sub) (Finite 0) = Inr m \<and>
         fst (calculate_emissions st sub) =
           st\<lparr>emissions_data := emissions_data st @
                [\<lparr>Employee_ID = employee_id sub, Name = employee_name sub,
                  Department = department sub, Purpose = travel_purpose sub,
                  Start_Date = start_date sub, End_Date = end_date sub,
                  Transport_Emissions = float_round t 2,
                  Accommodation_Emissions = float_round a 2,
                  Meal_Emissions = float_round m 2,
                  Total_Emissions = float_round (fadd (fadd t a) m) 2,
                  Timestamp = timestamp_now sub\<rparr>],
              total_emissions := fadd (total_emissions st) (fadd (fadd t a) m),
              trip_details := ds,
              transport_emissions := t,
              accommodation_emissions := a,
              meal_emissions := m\<rparr>))"
proof (intro conjI impI)
  assume "snd (calculate_emissions st sub) \<noteq> None"
  then show "fst (calculate_emissions st sub) = st" by (rule calculate_emissions_Some)
next
  assume "snd (calculate_emissions st sub) = None"
  from calculate_emissions_None [OF this] show "\<exists>t ds a m.
         trip_loop (trip_data sub) (Finite 0, []) = Inr (t, ds) \<and>
         stay_loop (stay_data sub) (Finite 0) = Inr a \<and>
         meal_loop (meal_data sub) (Finite 0) = Inr m \<and>
         fst (calculate_emissions st sub) =
           st\<lparr>emissions_data := emissions_data st @
                [\<lparr>Employee_ID = employee_id sub, Name = employee_name sub,
                  Department = department sub, Purpose = travel_purpose sub,
                  Start_Date = start_date sub, End_Date = end_date sub,
                  Transport_Emissions = float_round t 2,
                  Accommodation_Emissions = float_round a 2,
                  Meal_Emissions = float_round m 2,
                  Total_Emissions = float_round (fadd (fadd t a) m) 2,
                  Timestamp = timestamp_now sub\<rparr>],
              total_emissions := fadd (total_emissions st) (fadd (fadd t a) m),
              trip_details := ds,
              transport_emissions := t,
              accommodation_emissions := a,
              meal_emissions := m\<rparr>"
    by (auto simp: store_results_def make_entry_def Let_def)
qed


text \<open>
  The failing submission raises in the meal loop, after the trip and stay loops have
  completed, and leaves the session of the example as it found it.
\<close>

theorem submission_atomic_witness:
  "snd (calculate_emissions (fst (calculate_emissions initial_state example_submission))
      failing_submission) = Some KeyError \<and>
   fst (calculate_emissions (fst (calculate_emissions initial_state example_submission))
      failing_submission) = fst (calculate_emissions initial_state example_submission) \<and>
   snd (calculate_emissions initial_state example_submission) = None \<and>
   fst (calculate_emissions initial_state example_submission) =
     \<lparr>emissions_data =
        [\<lparr>Employee_ID = ''E1'', Name = ''A'', Department = ''IT'', Purpose = ''Training'',
          Start_Date = ''2025-01-01'', End_Date = ''2025-01-08'',
          Transport_Emissions = double 72.34, Accommodation_Emissions = Finite 45,
          Meal_Emissions = Finite 16.5, Total_Emissions = double 133.84,
          Timestamp = ''2025-01-01 09:00:00''\<rparr>],
      total_emissions = double 133.83999999999997,
      trip_details =
        [\<lparr>From_city = ''VELLORE'', To_city = ''CHENNAI'', Mode = ''FLIGHT - FIRST'',
           Distance_km = 124.7, Emission_kg = double 56.12\<rparr>,
         \<lparr>From_city = ''VELLORE'', To_city = ''CHENNAI'', Mode = ''CAR - HYBRID'',
           Distance_km = 124.7, Emission_kg = double 9.98\<rparr>,
         \<lparr>From_city = ''VELLORE'', To_city = ''CHENNAI'', Mode = ''TRAIN - HIGH SPEED'',
           Distance_km = 124.7, Emission_kg = double 6.24\<rparr>],
      transport_emissions = double 72.33999999999999,
      accommodation_emissions = Finite 45,
      meal_emissions = Finite 16.5\<rparr>"
proof -
  let ?s1 = "fst (calculate_emissions initial_state example_submission)"
  have f: "snd (calculate_emissions ?s1 failing_submission) = Some KeyError"
    by (rule failing_fails)
  then have "snd (calculate_emissions ?s1 failing_submission) \<noteq> None" by simp
  with submission_atomic [of ?s1 failing_submission]
  have u: "fst (calculate_emissions ?s1 failing_submission) = ?s1" by blast
  have e: "snd (calculate_emissions initial_state example_submission) = None"
    by (rule example_succeeds)
  with submission_atomic [of initial_state example_submission] obtain t ds a m where
    l: "trip_loop (trip_data example_submission) (Finite 0, []) = Inr (t, ds)"
       "stay_loop (stay_data example_submission) (Finite 0) = Inr a"
       "meal_loop (meal_data example_submission) (Finite 0) = Inr m" and
    r: "?s1 =
          initial_state\<lparr>emissions_data := emissions_data initial_state @
                [\<lparr>Employee_ID = employee_id example_submission,
                  Name = employee_name example_submission,
                  Department = department example_submission,
                  Purpose = travel_purpose example_submission,
                  Start_Date = start_date example_submission,
                  End_Date = end_date example_submission,
                  Transport_Emissions = float_round t 2,
                  Accommodation_Emissions = float_round a 2,
                  Meal_Emissions = float_round m 2,
                  Total_Emissions = float_round (fadd (fadd t a) m) 2,
                  Timestamp = timestamp_now example_submission\<rparr>],
              total_emissions := fadd (total_emissions initial_state) (fadd (fadd t a) m),
              trip_details := ds,
              transport_emissions := t,
              accommodation_emissions := a,
              meal_emissions := m\<rparr>"
    by blast
  from l have v: "t = double 72.33999999999999" "a = Finite 45" "m = Finite 16.5"
    and ds: "ds =
        [\<lparr>From_city = ''VELLORE'', To_city = ''CHENNAI'', Mode = ''FLIGHT - FIRST'',
           Distance_km = 124.7, Emission_kg = double 56.12\<rparr>,
         \<lparr>From_city = ''VELLORE'', To_city = ''CHENNAI'', Mode = ''CAR - HYBRID'',
           Distance_km = 124.7, Emission_kg = double 9.98\<rparr>,
         \<lparr>From_city = ''VELLORE'', To_city = ''CHENNAI'', Mode = ''TRAIN - HIGH SPEED'',
           Distance_km = 124.7, Emission_kg = double 6.24\<rparr>]"
    by (simp_all only: example_trip_loop example_stay_loop example_meal_loop sum.inject
        prod.inject)
  have z: "fadd (Finite 0) (double 133.83999999999997) = double 133.83999999999997"
    by (simp add: float_eval)
  have "?s1 =
     \<lparr>emissions_data =
        [\<lparr>Employee_ID = ''E1'', Name = ''A'', Department = ''IT'', Purpose = ''Training'',
          Start_Date = ''2025-01-01'', End_Date = ''2025-01-08'',
          Transport_Emissions = double 72.34, Accommodation_Emissions = Finite 45,
          Meal_Emissions = Finite 16.5, Total_Emissions = double 133.84,
          Timestamp = ''2025-01-01 09:00:00''\<rparr>],
      total_emissions = double 133.83999999999997,
      trip_details =
        [\<lparr>From_city = ''VELLORE'', To_city = ''CHENNAI'', Mode = ''FLIGHT - FIRST'',
           Distance_km = 124.7, Emission_kg = double 56.12\<rparr>,
         \<lparr>From_city = ''VELLORE'', To_city = ''CHENNAI'', Mode = ''CAR - HYBRID'',
           Distance_km = 124.7, Emission_kg = double 9.98\<rparr>,
         \<lparr>From_city = ''VELLORE'', To_city = ''CHENNAI'', Mode = ''TRAIN - HIGH SPEED'',
           Distance_km = 124.7, Emission_kg = double 6.24\<rparr>],
      transport_emissions = double 72.33999999999999,
      accommodation_emissions = Finite 45,
      meal_emissions = Finite 16.5\<rparr>"
    by (subst r)
      (simp only: v ds example_total example_rounded example_fields initial_state_def z
        session_state.simps append_Nil)
  with f u e show ?thesis by (intro conjI)
qed






end
